theory Spec2Isabelle
  imports Complex_Main "HOL-Library.Word"
begin

section \<open>Memory and numbers\<close>

text \<open>
  The library works on caller-supplied arrays of \<^verbatim>\<open>float32_t\<close>, reached through
  pointers, so two arguments of one call may name the same cells. The model keeps one
  store of cells: an address counts \<^verbatim>\<open>float32_t\<close> cells, \<^verbatim>\<open>p[n]\<close> is the cell
  \<open>p + n\<close>, and a function that writes through a pointer returns the updated store.
  The block structs are held apart from that store and are passed and returned as
  records.

  A \<^verbatim>\<open>float32_t\<close> value is read as the real number it stands for. Integer parameters
  keep their width (\<^verbatim>\<open>uint8_t\<close>, \<^verbatim>\<open>uint16_t\<close> and \<^verbatim>\<open>uint32_t\<close> are words).
\<close>

type_synonym addr = nat
type_synonym heap = "addr \<Rightarrow> real"

text \<open>
  \<^verbatim>\<open>memcpy(dst, src, sizeof(float32_t) * n)\<close>: the \<open>n\<close> cells from \<open>src\<close> are copied
  to the \<open>n\<close> cells from \<open>dst\<close>.
\<close>

definition memcpy_f32 :: "addr \<Rightarrow> addr \<Rightarrow> nat \<Rightarrow> heap \<Rightarrow> heap" where
  "memcpy_f32 dst src n mem =
     (\<lambda>a. if dst \<le> a \<and> a < dst + n then mem (src + (a - dst)) else mem a)"

text \<open>Two arrays of cells that share no cell.\<close>

definition disjoint :: "addr \<Rightarrow> nat \<Rightarrow> addr \<Rightarrow> nat \<Rightarrow> bool" where
  "disjoint p n q m = (p + n \<le> q \<or> q + m \<le> p)"

text \<open>The null pointer is the address 0; no buffer starts there.\<close>

definition NULL :: addr where
  "NULL = 0"

section \<open>Floating-point arithmetic\<close>

text \<open>
  The only floating-point arithmetic the source file does itself is that of the window
  coefficients. The floating-point unit and the C library that carry it out are not
  among the sources, so they are parameters of the model: \<open>f32\<close> and \<open>f64\<close> round a
  real number to \<^verbatim>\<open>float32_t\<close> and to \<^verbatim>\<open>double\<close>, \<open>cos_f64\<close> is the library's
  \<^verbatim>\<open>cos\<close> on a \<^verbatim>\<open>double\<close>, and \<open>M_PI\<close> is the library's \<^verbatim>\<open>double\<close> constant for pi.
  Each operation of the code is the exact operation followed by the rounding to the type
  C gives its result. A \<^verbatim>\<open>uint16_t\<close> value and the integer constants 1 and 2 convert to
  \<^verbatim>\<open>float32_t\<close> and \<^verbatim>\<open>double\<close> without rounding.
\<close>

record float_ops =
  f32 :: "real \<Rightarrow> real"
  f64 :: "real \<Rightarrow> real"
  cos_f64 :: "real \<Rightarrow> real"
  M_PI :: real

text \<open>
  What the error bounds below ask of the arithmetic. A rounding of a number of magnitude
  up to \<open>2^20\<close> is off by at most the relative error of rounding to nearest (\<open>2^-24\<close>
  for \<^verbatim>\<open>float32_t\<close>, \<open>2^-53\<close> for \<^verbatim>\<open>double\<close>) plus \<open>2^-100\<close>, which covers the
  subnormal range; \<open>cos_f64\<close> is within \<open>2^-52\<close> of the cosine; the \<^verbatim>\<open>float32_t\<close> value
  of \<open>M_PI\<close> is within \<open>2^-21\<close> of pi. IEEE 754 arithmetic rounding to nearest, with a
  \<^verbatim>\<open>cos\<close> good to one unit in the last place, meets it.
\<close>

definition float_accurate :: "float_ops \<Rightarrow> bool" where
  "float_accurate fp \<longleftrightarrow>
     (\<forall>x. \<bar>x\<bar> \<le> 2 ^ 20 \<longrightarrow> \<bar>f32 fp x - x\<bar> \<le> \<bar>x\<bar> / 2 ^ 24 + 1 / 2 ^ 100)
   \<and> (\<forall>x. \<bar>x\<bar> \<le> 2 ^ 20 \<longrightarrow> \<bar>f64 fp x - x\<bar> \<le> \<bar>x\<bar> / 2 ^ 53 + 1 / 2 ^ 100)
   \<and> (\<forall>x. \<bar>cos_f64 fp x - cos x\<bar> \<le> 1 / 2 ^ 52)
   \<and> \<bar>f32 fp (M_PI fp) - pi\<bar> \<le> 1 / 2 ^ 21"

subsection \<open>A reference arithmetic\<close>

text \<open>
  An arithmetic to run the code on: \<open>round_to p\<close> rounds to the nearest number with
  \<open>p\<close> significant bits (a tie goes up; the exponent is not bounded), \<^verbatim>\<open>float32_t\<close>
  has 24 significant bits and \<^verbatim>\<open>double\<close> 53, and the cosine and the constant are the
  exact ones rounded to \<^verbatim>\<open>double\<close>.
\<close>

definition round_to :: "nat \<Rightarrow> real \<Rightarrow> real" where
  "round_to p x =
     (if x = 0 then 0
      else of_int \<lfloor>x / 2 powr (of_int \<lfloor>log 2 \<bar>x\<bar>\<rfloor> - real p + 1) + 1 / 2\<rfloor>
             * 2 powr (of_int \<lfloor>log 2 \<bar>x\<bar>\<rfloor> - real p + 1))"

definition ref_fp :: float_ops where
  "ref_fp = \<lparr>f32 = round_to 24, f64 = round_to 53,
             cos_f64 = (\<lambda>x. round_to 53 (cos x)), M_PI = round_to 53 pi\<rparr>"

section \<open>Window functions\<close>

text \<open>
  The header that defines \<^verbatim>\<open>WINDOW_TYPE_RECTANGULAR\<close>, \<^verbatim>\<open>WINDOW_TYPE_HANNING\<close> and
  \<^verbatim>\<open>WINDOW_TYPE_HAMMING\<close> is not among the sources: the three selector values are
  parameters of the model.
\<close>

record window_types =
  WINDOW_TYPE_RECTANGULAR :: "8 word"
  WINDOW_TYPE_HANNING :: "8 word"
  WINDOW_TYPE_HAMMING :: "8 word"

text \<open>
  \<^verbatim>\<open>window_TypeDef\<close>, with the fields \<^verbatim>\<open>value\<close>, \<^verbatim>\<open>length\<close> and \<^verbatim>\<open>type\<close> the code
  assigns; each field has the type of the parameter stored in it.
\<close>

record window_TypeDef =
  w_value :: addr
  w_length :: "16 word"
  w_type :: "8 word"

text \<open>
  The loop \<^verbatim>\<open>for(n=0; n < user_w_struct->length; n++) set_valueBuf[n] = w(n)\<close> shared
  by the three branches, from the current value of the \<^verbatim>\<open>uint16_t\<close> counter \<open>n\<close>.
\<close>

function window_loop :: "(16 word \<Rightarrow> real) \<Rightarrow> addr \<Rightarrow> 16 word \<Rightarrow> 16 word \<Rightarrow> heap \<Rightarrow> heap" where
  "window_loop w set_valueBuf len n mem =
     (if n < len
      then window_loop w set_valueBuf len (n + 1) (mem(set_valueBuf + unat n := w n))
      else mem)"
  by pat_completeness auto
termination
proof (relation "measure (\<lambda>(w, set_valueBuf, len, n, mem). unat len - unat n)")
  show "wf (measure (\<lambda>(w, set_valueBuf, len, n, mem). unat len - unat n))"
    by simp
next
  fix w :: "16 word \<Rightarrow> real" and set_valueBuf :: addr and len n :: "16 word" and mem :: heap
  assume lt: "n < len"
  then have "n \<noteq> - 1"
    by (metis word_order.extremum_strict)
  then have "n + 1 \<noteq> 0"
    by (metis add.commute add_eq_0_iff)
  then have "unat (n + 1) = Suc (unat n)"
    by (metis add.commute unatSuc)
  moreover from lt have "unat n < unat len"
    by (simp add: word_less_nat_alt)
  ultimately show "((w, set_valueBuf, len, n + 1, mem(set_valueBuf + unat n := w n)),
      (w, set_valueBuf, len, n, mem)) \<in> measure (\<lambda>(w, set_valueBuf, len, n, mem). unat len - unat n)"
    by simp
qed

text \<open>\<^verbatim>\<open>set_valueBuf[n] = 1\<close>: the integer 1 converts to \<^verbatim>\<open>float32_t\<close> as it is.\<close>

definition rectangular_coeff :: "16 word \<Rightarrow> real" where
  "rectangular_coeff n = 1"

text \<open>
  The argument \<^verbatim>\<open>2*(float32_t)(M_PI)*n/(user_w_struct->length)\<close> of the cosine, for the
  values \<open>L\<close> of the length and \<open>n\<close> of the counter: \<open>M_PI\<close> is rounded to
  \<^verbatim>\<open>float32_t\<close>, and the two products and the quotient, taken from left to right, are
  \<^verbatim>\<open>float32_t\<close> operations.
\<close>

definition window_arg :: "float_ops \<Rightarrow> nat \<Rightarrow> nat \<Rightarrow> real" where
  "window_arg fp L n = f32 fp (f32 fp (f32 fp (2 * f32 fp (M_PI fp)) * real n) / real L)"

text \<open>
  \<^verbatim>\<open>0.5*(1 - cos(...))\<close>: the cosine, the difference and the product are \<^verbatim>\<open>double\<close>
  operations (0.5 is a \<^verbatim>\<open>double\<close> as it is), and the store to \<^verbatim>\<open>set_valueBuf[n]\<close> rounds
  to \<^verbatim>\<open>float32_t\<close>.
\<close>

definition hanning_coeff :: "float_ops \<Rightarrow> 16 word \<Rightarrow> 16 word \<Rightarrow> real" where
  "hanning_coeff fp len n =
     f32 fp (f64 fp (0.5 * f64 fp (1 - cos_f64 fp (window_arg fp (unat len) (unat n)))))"

text \<open>
  \<^verbatim>\<open>0.54 - 0.46*cos(...)\<close>: the decimal constants are rounded to \<^verbatim>\<open>double\<close>, the cosine,
  the product and the difference are \<^verbatim>\<open>double\<close> operations, and the store rounds to
  \<^verbatim>\<open>float32_t\<close>.
\<close>

definition hamming_coeff :: "float_ops \<Rightarrow> 16 word \<Rightarrow> 16 word \<Rightarrow> real" where
  "hamming_coeff fp len n =
     f32 fp (f64 fp (f64 fp 0.54
                     - f64 fp (f64 fp 0.46 * cos_f64 fp (window_arg fp (unat len) (unat n)))))"

definition CMSIS_DSP_windowFunction_blockInit ::
  "float_ops \<Rightarrow> window_types \<Rightarrow> window_TypeDef \<Rightarrow> addr \<Rightarrow> 8 word \<Rightarrow> 16 word \<Rightarrow> heap
     \<Rightarrow> window_TypeDef \<times> heap" where
  "CMSIS_DSP_windowFunction_blockInit fp wt user_w_struct set_valueBuf setWindowType setLength mem =
     (let s = user_w_struct\<lparr>w_value := set_valueBuf, w_length := setLength,
                             w_type := setWindowType\<rparr>
      in if w_type s = WINDOW_TYPE_RECTANGULAR wt
         then (s, window_loop rectangular_coeff set_valueBuf (w_length s) 0 mem)
         else if w_type s = WINDOW_TYPE_HANNING wt
         then (s, window_loop (hanning_coeff fp (w_length s)) set_valueBuf (w_length s) 0 mem)
         else if w_type s = WINDOW_TYPE_HAMMING wt
         then (s, window_loop (hamming_coeff fp (w_length s)) set_valueBuf (w_length s) 0 mem)
         else (s, mem))"

text \<open>
  Modelled from the spec: \<^verbatim>\<open>arm_mult_f32\<close>, the element-wise product of the ARM
  CMSIS-DSP library, is not among the sources. The spec gives the apply operation as
  \<open>output[n] = input[n] * coefficientBuffer[n]\<close> for \<open>n\<close> in \<open>[0, length)\<close>.
\<close>

definition arm_mult_f32 :: "addr \<Rightarrow> addr \<Rightarrow> addr \<Rightarrow> nat \<Rightarrow> heap \<Rightarrow> heap" where
  "arm_mult_f32 pSrcA pSrcB pDst blockSize mem =
     (\<lambda>a. if pDst \<le> a \<and> a < pDst + blockSize
          then mem (pSrcA + (a - pDst)) * mem (pSrcB + (a - pDst))
          else mem a)"

definition CMSIS_DSP_windowFunciton_apply :: "window_TypeDef \<Rightarrow> addr \<Rightarrow> addr \<Rightarrow> heap \<Rightarrow> heap" where
  "CMSIS_DSP_windowFunciton_apply user_w_struct pInput pOutput mem =
     arm_mult_f32 pInput (w_value user_w_struct) pOutput (unat (w_length user_w_struct)) mem"

section \<open>Real FFT\<close>

text \<open>
  The transform itself is done by \<^verbatim>\<open>arm_rfft_fast_init_f32\<close> and \<^verbatim>\<open>arm_rfft_fast_f32\<close>
  of the ARM CMSIS-DSP library, on an instance struct of that library; the selector
  values \<^verbatim>\<open>REAL_FFT_SELECT_VAL\<close> and \<^verbatim>\<open>REAL_IFFT_SELECT_VAL\<close> come from the header.
  None of them is among the sources, so the wrappers take them as one parameter: the
  initializer returns its status (read as \<^verbatim>\<open>int8_t\<close>, zero for \<^verbatim>\<open>ARM_MATH_SUCCESS\<close>) and
  the instance it leaves behind; the transform maps the store to the store, given the
  instance, the input pointer, the output pointer and the direction flag.
\<close>

record 'k rfft_kernel =
  arm_rfft_fast_init_f32 :: "'k \<Rightarrow> 16 word \<Rightarrow> 8 word \<times> 'k"
  arm_rfft_fast_f32 :: "'k \<Rightarrow> addr \<Rightarrow> addr \<Rightarrow> 8 word \<Rightarrow> heap \<Rightarrow> heap"
  REAL_FFT_SELECT_VAL :: "8 word"
  REAL_IFFT_SELECT_VAL :: "8 word"

text \<open>
  Two values of \<^verbatim>\<open>arm_status\<close>, as the comment at the head of the source file lists them
  (\<open>ARM_MATH_SUCCESS = 0\<close>, \<open>ARM_MATH_LENGTH_ERROR = -2\<close>), in the \<^verbatim>\<open>int8_t\<close> the
  initializer returns.
\<close>

definition ARM_MATH_SUCCESS :: "8 word" where
  "ARM_MATH_SUCCESS = 0"

definition ARM_MATH_LENGTH_ERROR :: "8 word" where
  "ARM_MATH_LENGTH_ERROR = - 2"

text \<open>
  \<^verbatim>\<open>rfft_f32_TypeDef\<close>: the kernel's instance \<^verbatim>\<open>arm_struct\<close>, the \<^verbatim>\<open>length\<close> and the two
  scratch pointers. Field names that several structs share carry the block's prefix
  here (\<open>rfft_\<close>, \<open>fir_\<close>, \<open>w_\<close>).
\<close>

record 'k rfft_f32_TypeDef =
  rfft_arm_struct :: 'k
  rfft_length :: "16 word"
  tmpBuffer_1 :: addr
  tmpBuffer_2 :: addr

definition CMSIS_DSP_real_FFT_f32_blockInit ::
  "'k rfft_kernel \<Rightarrow> 'k rfft_f32_TypeDef \<Rightarrow> addr \<Rightarrow> addr \<Rightarrow> 16 word
     \<Rightarrow> 8 word \<times> 'k rfft_f32_TypeDef" where
  "CMSIS_DSP_real_FFT_f32_blockInit K user_RFFT_struct set_tmp1 set_tmp2 setLength =
     (let s = user_RFFT_struct\<lparr>rfft_length := setLength, tmpBuffer_1 := set_tmp1,
                                tmpBuffer_2 := set_tmp2\<rparr>;
          r = arm_rfft_fast_init_f32 K (rfft_arm_struct s) setLength
      in (fst r, s\<lparr>rfft_arm_struct := snd r\<rparr>))"

definition CMSIS_DSP_real_FFT_f32_apply ::
  "'k rfft_kernel \<Rightarrow> 'k rfft_f32_TypeDef \<Rightarrow> addr \<Rightarrow> addr \<Rightarrow> heap \<Rightarrow> heap" where
  "CMSIS_DSP_real_FFT_f32_apply K user_RFFT_struct rDataIn fftOut mem =
     arm_rfft_fast_f32 K (rfft_arm_struct user_RFFT_struct) (tmpBuffer_1 user_RFFT_struct)
       fftOut (REAL_FFT_SELECT_VAL K)
       (memcpy_f32 (tmpBuffer_1 user_RFFT_struct) rDataIn
          (unat (rfft_length user_RFFT_struct)) mem)"

definition CMSIS_DSP_real_IFFT_f32_apply ::
  "'k rfft_kernel \<Rightarrow> 'k rfft_f32_TypeDef \<Rightarrow> addr \<Rightarrow> addr \<Rightarrow> heap \<Rightarrow> heap" where
  "CMSIS_DSP_real_IFFT_f32_apply K user_RFFT_struct fftIn ifftOut mem =
     arm_rfft_fast_f32 K (rfft_arm_struct user_RFFT_struct) (tmpBuffer_1 user_RFFT_struct)
       ifftOut (REAL_IFFT_SELECT_VAL K)
       (memcpy_f32 (tmpBuffer_1 user_RFFT_struct) fftIn
          (unat (rfft_length user_RFFT_struct)) mem)"

text \<open>
  Modelled from the spec: \<^verbatim>\<open>arm_cmplx_mag_f32\<close> and \<^verbatim>\<open>arm_cmplx_mag_squared_f32\<close> of
  the ARM CMSIS-DSP library are not among the sources. The spec gives them on a packed
  spectrum \<open>{real[0], imag[0], real[1], imag[1], ...}\<close> as
  \<open>output[k] = sqrt(real[k]^2 + imag[k]^2)\<close> and \<open>output[k] = real[k]^2 + imag[k]^2\<close>,
  for \<open>k\<close> below the number of bins.
\<close>

definition arm_cmplx_mag_f32 :: "addr \<Rightarrow> addr \<Rightarrow> nat \<Rightarrow> heap \<Rightarrow> heap" where
  "arm_cmplx_mag_f32 pSrc pDst numSamples mem =
     (\<lambda>a. if pDst \<le> a \<and> a < pDst + numSamples
          then sqrt ((mem (pSrc + 2 * (a - pDst)))\<^sup>2 + (mem (pSrc + 2 * (a - pDst) + 1))\<^sup>2)
          else mem a)"

text \<open>
  Modelled from the spec: \<^verbatim>\<open>arm_cmplx_mag_squared_f32\<close>, with
  \<open>output[k] = real[k]^2 + imag[k]^2\<close>.
\<close>

definition arm_cmplx_mag_squared_f32 :: "addr \<Rightarrow> addr \<Rightarrow> nat \<Rightarrow> heap \<Rightarrow> heap" where
  "arm_cmplx_mag_squared_f32 pSrc pDst numSamples mem =
     (\<lambda>a. if pDst \<le> a \<and> a < pDst + numSamples
          then (mem (pSrc + 2 * (a - pDst)))\<^sup>2 + (mem (pSrc + 2 * (a - pDst) + 1))\<^sup>2
          else mem a)"

definition CMSIS_DSP_magnitude_FFT_f32_apply ::
  "'k rfft_kernel \<Rightarrow> 'k rfft_f32_TypeDef \<Rightarrow> addr \<Rightarrow> addr \<Rightarrow> heap \<Rightarrow> heap" where
  "CMSIS_DSP_magnitude_FFT_f32_apply K user_RFFT_struct rDataIn magFFTOut mem =
     arm_cmplx_mag_f32 (tmpBuffer_2 user_RFFT_struct) magFFTOut
       (unat (rfft_length user_RFFT_struct) div 2)
       (arm_rfft_fast_f32 K (rfft_arm_struct user_RFFT_struct) (tmpBuffer_1 user_RFFT_struct)
          (tmpBuffer_2 user_RFFT_struct) (REAL_FFT_SELECT_VAL K)
          (memcpy_f32 (tmpBuffer_1 user_RFFT_struct) rDataIn
             (unat (rfft_length user_RFFT_struct)) mem))"

definition CMSIS_DSP_magnitudeSquare_FFT_f32_apply ::
  "'k rfft_kernel \<Rightarrow> 'k rfft_f32_TypeDef \<Rightarrow> addr \<Rightarrow> addr \<Rightarrow> heap \<Rightarrow> heap" where
  "CMSIS_DSP_magnitudeSquare_FFT_f32_apply K user_RFFT_struct rDataIn magSqFFTOut mem =
     arm_cmplx_mag_squared_f32 (tmpBuffer_2 user_RFFT_struct) magSqFFTOut
       (unat (rfft_length user_RFFT_struct) div 2)
       (arm_rfft_fast_f32 K (rfft_arm_struct user_RFFT_struct) (tmpBuffer_1 user_RFFT_struct)
          (tmpBuffer_2 user_RFFT_struct) (REAL_FFT_SELECT_VAL K)
          (memcpy_f32 (tmpBuffer_1 user_RFFT_struct) rDataIn
             (unat (rfft_length user_RFFT_struct)) mem))"

subsection \<open>A reference kernel\<close>

text \<open>
  Modelled from the spec: a kernel to run the wrappers on, since the CMSIS-DSP kernel is
  not among the sources. Its initializer accepts the supported lengths
  \<open>{32, 64, 128, ..., 4096}\<close> and fails with the length error on any other. Its forward
  transform is the discrete Fourier transform of the \<open>N\<close> real samples, written in the
  packed layout: cell \<open>2k\<close> holds the real part and cell \<open>2k + 1\<close> the imaginary part of
  bin \<open>k\<close>, for \<open>k\<close> from 1 below \<open>N/2\<close>; cell 0 holds bin 0, which is real. Its inverse
  transform rebuilds the real samples from the stored half of the spectrum by Hermitian
  symmetry, so that the round trip the spec promises holds; for that it needs bin
  \<open>N/2\<close>, which is real too, and the layout has one free cell for it: cell 1, the place
  of the imaginary part of bin 0, which is zero for every real signal. The direction
  flag is 0 for the forward transform.
\<close>

record arm_rfft_fast_instance_f32 =
  fftLenRFFT :: "16 word"

text \<open>
  Modelled from the spec: the kernel initializer; it fails with the length error when
  the length is not in the supported set.
\<close>

definition ref_rfft_init ::
  "arm_rfft_fast_instance_f32 \<Rightarrow> 16 word \<Rightarrow> 8 word \<times> arm_rfft_fast_instance_f32" where
  "ref_rfft_init S fftLen =
     (if fftLen \<in> set [32, 64, 128, 256, 512, 1024, 2048, 4096]
      then (ARM_MATH_SUCCESS, S\<lparr>fftLenRFFT := fftLen\<rparr>)
      else (ARM_MATH_LENGTH_ERROR, S))"

text \<open>
  Modelled from the spec: cell \<open>j\<close> of the packed spectrum of the \<open>N\<close> samples \<open>x\<close>;
  cell 1 holds bin \<open>N/2\<close>.
\<close>

definition dft_packed :: "nat \<Rightarrow> (nat \<Rightarrow> real) \<Rightarrow> nat \<Rightarrow> real" where
  "dft_packed N x j =
     (if j = 1
      then sum_list (map (\<lambda>m. x m * cos (pi * real m)) [0..<N])
      else if even j
      then sum_list (map (\<lambda>m. x m * cos (2 * pi * real (j div 2) * real m / real N)) [0..<N])
      else - sum_list (map (\<lambda>m. x m * sin (2 * pi * real (j div 2) * real m / real N)) [0..<N]))"

text \<open>
  Modelled from the spec: sample \<open>n\<close> rebuilt from the packed spectrum \<open>X\<close> of
  length \<open>N\<close>.
\<close>

definition idft_packed :: "nat \<Rightarrow> (nat \<Rightarrow> real) \<Rightarrow> nat \<Rightarrow> real" where
  "idft_packed N X n =
     (X 0 + X 1 * cos (pi * real n)
      + 2 * sum_list (map (\<lambda>k. X (2 * k) * cos (2 * pi * real k * real n / real N)
                                   - X (2 * k + 1) * sin (2 * pi * real k * real n / real N))
                            [1..<N div 2])) / real N"

text \<open>
  Modelled from the spec: the kernel transform, from the \<open>N\<close> cells at \<open>p\<close> to the
  \<open>N\<close> cells at \<open>pOut\<close>, \<open>N\<close> the length the instance was initialized with.
\<close>

definition ref_rfft ::
  "arm_rfft_fast_instance_f32 \<Rightarrow> addr \<Rightarrow> addr \<Rightarrow> 8 word \<Rightarrow> heap \<Rightarrow> heap" where
  "ref_rfft S p pOut ifftFlag mem =
     (\<lambda>a. if pOut \<le> a \<and> a < pOut + unat (fftLenRFFT S)
          then (if ifftFlag = 0
                then dft_packed (unat (fftLenRFFT S)) (\<lambda>n. mem (p + n)) (a - pOut)
                else idft_packed (unat (fftLenRFFT S)) (\<lambda>n. mem (p + n)) (a - pOut))
          else mem a)"

text \<open>
  Modelled from the spec: the reference kernel as one parameter of the wrappers, with
  the selector values 0 (forward) and 1 (inverse).
\<close>

definition ref_kernel :: "arm_rfft_fast_instance_f32 rfft_kernel" where
  "ref_kernel =
     \<lparr>arm_rfft_fast_init_f32 = ref_rfft_init, arm_rfft_fast_f32 = ref_rfft,
      REAL_FFT_SELECT_VAL = 0, REAL_IFFT_SELECT_VAL = 1\<rparr>"

subsection \<open>The round trip asked of a kernel\<close>

text \<open>
  Modelled from the spec: the round trip \<open>inverseTransform(forwardTransform(x)) == x\<close>
  up to rounding error, as a property of the kernel, which is not among the sources. For
  a kernel with instance \<open>S\<close> and length \<open>N\<close> and a tolerance \<open>eps\<close>: when the inverse
  transform is run on \<open>N\<close> cells that hold what the forward transform wrote for \<open>N\<close>
  input cells, each of its \<open>N\<close> output cells is within \<open>eps\<close> of the input cell it
  stands for. In each run the input and the output buffer share no cell.
\<close>

definition rfft_round_trip :: "'k rfft_kernel \<Rightarrow> 'k \<Rightarrow> nat \<Rightarrow> real \<Rightarrow> bool" where
  "rfft_round_trip K S N eps \<longleftrightarrow>
     (\<forall>p q p' q' mem mem'.
        disjoint p N q N \<and> disjoint p' N q' N
        \<and> (\<forall>j<N. mem' (p' + j) = arm_rfft_fast_f32 K S p q (REAL_FFT_SELECT_VAL K) mem (q + j))
        \<longrightarrow> (\<forall>n<N. \<bar>arm_rfft_fast_f32 K S p' q' (REAL_IFFT_SELECT_VAL K) mem' (q' + n)
                       - mem (p + n)\<bar> \<le> eps))"

section \<open>FIR filter\<close>

text \<open>
  Modelled from the spec: \<^verbatim>\<open>arm_fir_init_f32\<close> and \<^verbatim>\<open>arm_fir_f32\<close> of the ARM CMSIS-DSP
  library and its instance struct are not among the sources. By the spec, initialization
  binds the buffers and zero-fills the state buffer of length \<open>tapCount + blockSize - 1\<close>.
  Apply takes \<open>blockSize\<close> new samples and writes \<open>blockSize\<close> outputs
  \<open>y[n] = \<Sum> k < T. coeff[k] * x[n - k]\<close>, where \<open>x\<close> extends backward into the previous
  block's tail kept in the state buffer and the coefficient buffer is stored
  time-reversed, so that each output is a forward dot product of the coefficient
  buffer with \<open>T\<close> consecutive cells of the state buffer; the state buffer then keeps the
  last \<open>T - 1\<close> samples for the next call.
\<close>

record arm_fir_instance_f32 =
  fir_numTaps :: "16 word"
  fir_pState :: addr
  fir_pCoeffs :: addr

text \<open>
  Modelled from the spec: the kernel initializer of the FIR filter; it binds the buffers
  and zero-fills \<open>tapCount + blockSize - 1\<close> cells of the state buffer.
\<close>

definition arm_fir_init_f32 ::
  "arm_fir_instance_f32 \<Rightarrow> 16 word \<Rightarrow> addr \<Rightarrow> addr \<Rightarrow> 32 word \<Rightarrow> heap
     \<Rightarrow> arm_fir_instance_f32 \<times> heap" where
  "arm_fir_init_f32 S numTaps pCoeffs pState blockSize mem =
     (S\<lparr>fir_numTaps := numTaps, fir_pState := pState, fir_pCoeffs := pCoeffs\<rparr>,
      (\<lambda>a. if pState \<le> a \<and> a < pState + (unat numTaps + unat blockSize - 1)
           then 0 else mem a))"

text \<open>
  Modelled from the spec: the kernel filter. The \<open>blockSize\<close> new samples are appended to
  the \<open>T - 1\<close> kept ones in the state buffer, output \<open>n\<close> is the dot product of the
  coefficient buffer with the \<open>T\<close> cells of the state buffer from cell \<open>n\<close>, and the
  last \<open>T - 1\<close> samples move to the front of the state buffer.
\<close>

definition arm_fir_f32 :: "arm_fir_instance_f32 \<Rightarrow> addr \<Rightarrow> addr \<Rightarrow> 32 word \<Rightarrow> heap \<Rightarrow> heap" where
  "arm_fir_f32 S pSrc pDst blockSize mem =
     (let T = unat (fir_numTaps S);
          B = unat blockSize;
          m1 = memcpy_f32 (fir_pState S + (T - 1)) pSrc B mem;
          m2 = (\<lambda>a. if pDst \<le> a \<and> a < pDst + B
                    then sum_list (map (\<lambda>i. m1 (fir_pCoeffs S + i)
                                              * m1 (fir_pState S + (a - pDst) + i)) [0..<T])
                    else m1 a)
      in memcpy_f32 (fir_pState S) (fir_pState S + B) (T - 1) m2)"

text \<open>
  \<^verbatim>\<open>fir_f32_TypeDef\<close>: the five values the code stores, each with the type of the
  parameter stored in it, and the kernel's instance.
\<close>

record fir_f32_TypeDef =
  fir_arm_struct :: arm_fir_instance_f32
  numTap :: "16 word"
  blockSize :: "32 word"
  pCoeff :: addr
  pState :: addr
  tmpBuffer :: addr

definition CMSIS_DSP_FIR_f32_blockInit ::
  "fir_f32_TypeDef \<Rightarrow> addr \<Rightarrow> addr \<Rightarrow> addr \<Rightarrow> 16 word \<Rightarrow> 32 word \<Rightarrow> heap
     \<Rightarrow> fir_f32_TypeDef \<times> heap" where
  "CMSIS_DSP_FIR_f32_blockInit user_FIR_struct set_pCoeff set_pState set_tmp setNumTap setBlockSize mem =
     (let s = user_FIR_struct\<lparr>numTap := setNumTap, blockSize := setBlockSize,
                               pCoeff := set_pCoeff, pState := set_pState,
                               tmpBuffer := set_tmp\<rparr>;
          r = arm_fir_init_f32 (fir_arm_struct s) setNumTap set_pCoeff set_pState setBlockSize mem
      in (s\<lparr>fir_arm_struct := fst r\<rparr>, snd r))"

text \<open>
  The byte count \<^verbatim>\<open>sizeof(float32_t) * blockSize\<close> of the copy is taken as \<open>blockSize\<close>
  cells: a buffer of that many cells that exists in memory has a byte size that fits
  \<^verbatim>\<open>size_t\<close>.
\<close>

definition CMSIS_DSP_FIR_f32_apply :: "fir_f32_TypeDef \<Rightarrow> addr \<Rightarrow> addr \<Rightarrow> heap \<Rightarrow> heap" where
  "CMSIS_DSP_FIR_f32_apply user_FIR_struct pInput pOutput mem =
     arm_fir_f32 (fir_arm_struct user_FIR_struct) (tmpBuffer user_FIR_struct) pOutput
       (blockSize user_FIR_struct)
       (memcpy_f32 (tmpBuffer user_FIR_struct) pInput (unat (blockSize user_FIR_struct)) mem)"

section \<open>Sample values\<close>

text \<open>
  Concrete values for the examples below: selector values for the three window kinds
  (any three distinct values would do), and a window block, an FFT block and an FIR
  block as a caller may hold them before initialization.
\<close>

definition wt0 :: window_types where
  "wt0 = \<lparr>WINDOW_TYPE_RECTANGULAR = 0, WINDOW_TYPE_HANNING = 1, WINDOW_TYPE_HAMMING = 2\<rparr>"

definition w0 :: window_TypeDef where
  "w0 = \<lparr>w_value = 7, w_length = 9, w_type = 5\<rparr>"

definition f0 :: "arm_rfft_fast_instance_f32 rfft_f32_TypeDef" where
  "f0 = \<lparr>rfft_arm_struct = \<lparr>fftLenRFFT = 64\<rparr>, rfft_length = 64,
         tmpBuffer_1 = 1000, tmpBuffer_2 = 2000\<rparr>"

text \<open>An FFT block configured for length 32 on the reference kernel, scratch at 100 and 200.\<close>

definition f1 :: "arm_rfft_fast_instance_f32 rfft_f32_TypeDef" where
  "f1 = snd (CMSIS_DSP_real_FFT_f32_blockInit ref_kernel f0 100 200 32)"

definition fir0 :: fir_f32_TypeDef where
  "fir0 = \<lparr>fir_arm_struct = \<lparr>fir_numTaps = 3, fir_pState = 30, fir_pCoeffs = 40\<rparr>,
           numTap = 3, blockSize = 8, pCoeff = 40, pState = 30, tmpBuffer = 50\<rparr>"

text \<open>
  An FIR block initialized with two taps and block size two: coefficients at 100, state
  at 200, scratch at 300.
\<close>

definition fir1 :: fir_f32_TypeDef where
  "fir1 = fst (CMSIS_DSP_FIR_f32_blockInit fir0 100 200 300 2 2 (\<lambda>a. 1))"

section \<open>Properties of the floating-point arithmetic\<close>

lemma pows:
  "(2::real) ^ 19 = 524288" "(2::real) ^ 20 = 1048576" "(2::real) ^ 21 = 2097152"
  "(2::real) ^ 24 = 16777216" "(2::real) ^ 52 = 4503599627370496"
  "(2::real) ^ 53 = 9007199254740992" "(2::real) ^ 100 = 1267650600228229401496703205376"
  by simp_all

lemma decs: "(0.46::real) = 23 / 50" "(0.54::real) = 27 / 50" "(0.5::real) = 1 / 2"
  by simp_all

text \<open>One rounding of a number bounded by \<open>M\<close>.\<close>

lemma f32_err:
  assumes "float_accurate fp" and "\<bar>x\<bar> \<le> M" and "M \<le> 2 ^ 20"
  shows "\<bar>f32 fp x - x\<bar> \<le> M / 2 ^ 24 + 1 / 2 ^ 100"
proof -
  have "\<bar>x\<bar> \<le> 2 ^ 20" using assms(2,3) by linarith
  then have "\<bar>f32 fp x - x\<bar> \<le> \<bar>x\<bar> / 2 ^ 24 + 1 / 2 ^ 100"
    using assms(1) by (simp add: float_accurate_def)
  moreover have "\<bar>x\<bar> / 2 ^ 24 \<le> M / 2 ^ 24"
    using assms(2) by (simp add: divide_right_mono)
  ultimately show ?thesis by linarith
qed

lemma f64_err:
  assumes "float_accurate fp" and "\<bar>x\<bar> \<le> M" and "M \<le> 2 ^ 20"
  shows "\<bar>f64 fp x - x\<bar> \<le> M / 2 ^ 53 + 1 / 2 ^ 100"
proof -
  have "\<bar>x\<bar> \<le> 2 ^ 20" using assms(2,3) by linarith
  then have "\<bar>f64 fp x - x\<bar> \<le> \<bar>x\<bar> / 2 ^ 53 + 1 / 2 ^ 100"
    using assms(1) by (simp add: float_accurate_def)
  moreover have "\<bar>x\<bar> / 2 ^ 53 \<le> M / 2 ^ 53"
    using assms(2) by (simp add: divide_right_mono)
  ultimately show ?thesis by linarith
qed

lemma cos_lipschitz: "\<bar>cos a - cos b\<bar> \<le> \<bar>a - b\<bar>" for a b :: real
proof -
  have s1: "\<bar>sin ((a + b) / 2)\<bar> \<le> 1" by simp
  have s2: "\<bar>sin ((b - a) / 2)\<bar> \<le> \<bar>(b - a) / 2\<bar>" by (rule abs_sin_x_le_abs_x)
  have "\<bar>cos a - cos b\<bar> = 2 * (\<bar>sin ((a + b) / 2)\<bar> * \<bar>sin ((b - a) / 2)\<bar>)"
    by (simp add: cos_diff_cos abs_mult)
  also have "\<dots> \<le> 2 * (1 * \<bar>(b - a) / 2\<bar>)"
    by (intro mult_left_mono mult_mono s1 s2) simp_all
  also have "\<dots> = \<bar>a - b\<bar>"
    by (simp add: abs_minus_commute)
  finally show ?thesis .
qed

text \<open>
  The argument of the cosine: three roundings to \<^verbatim>\<open>float32_t\<close> and the rounded pi leave
  it within \<open>45 / 2^24\<close> of \<open>2 pi n / L\<close>.
\<close>

lemma window_arg_err:
  assumes acc: "float_accurate fp" and nL: "n < L" and L: "L \<le> 65535"
  shows "\<bar>window_arg fp L n - 2 * pi * real n / real L\<bar> \<le> 45 / 2 ^ 24 + 2 / 2 ^ 100"
proof -
  define P where "P = f32 fp (M_PI fp)"
  define a0 where "a0 = f32 fp (2 * P)"
  define a1 where "a1 = f32 fp (a0 * real n)"
  define x2 where "x2 = a1 / real L"
  define a2 where "a2 = f32 fp x2"
  have r: "0 \<le> real n" "real n \<le> real L" "1 \<le> real L" "real n \<le> 65535"
    using nL L by simp_all
  have pi4: "pi < 4" by (rule pi_less_4)
  have pi0: "0 < pi" by simp
  have P: "\<bar>P - pi\<bar> \<le> 1 / 2 ^ 21"
    using acc by (simp add: float_accurate_def P_def)
  then have "\<bar>2 * P\<bar> \<le> 10" using pi4 pi0 unfolding pows by linarith
  then have "\<bar>a0 - 2 * P\<bar> \<le> 10 / 2 ^ 24 + 1 / 2 ^ 100"
    unfolding a0_def by (rule f32_err [OF acc]) simp
  with P have a0: "\<bar>a0 - 2 * pi\<bar> \<le> 27 / 2 ^ 24"
    unfolding pows by linarith
  then have a0m: "\<bar>a0\<bar> \<le> 9" using pi4 pi0 unfolding pows by linarith
  have "\<bar>a0 * real n\<bar> \<le> 9 * real n"
    using a0m r(1) by (simp add: abs_mult mult_right_mono)
  moreover have "9 * real n \<le> 2 ^ 20" using r(4) unfolding pows by linarith
  ultimately have "\<bar>a1 - a0 * real n\<bar> \<le> 9 * real n / 2 ^ 24 + 1 / 2 ^ 100"
    unfolding a1_def by (rule f32_err [OF acc])
  moreover have "\<bar>a0 * real n - 2 * pi * real n\<bar> \<le> 27 / 2 ^ 24 * real n"
  proof -
    have "\<bar>a0 * real n - 2 * pi * real n\<bar> = \<bar>a0 - 2 * pi\<bar> * real n"
      using r(1) by (simp add: abs_mult left_diff_distrib [symmetric])
    moreover have "\<bar>a0 - 2 * pi\<bar> * real n \<le> 27 / 2 ^ 24 * real n"
      using a0 r(1) by (rule mult_right_mono)
    ultimately show ?thesis by (simp only:)
  qed
  ultimately have a1: "\<bar>a1 - 2 * pi * real n\<bar> \<le> 36 / 2 ^ 24 * real n + 1 / 2 ^ 100"
    unfolding pows by linarith
  have x2: "\<bar>x2 - 2 * pi * real n / real L\<bar> \<le> 36 / 2 ^ 24 + 1 / 2 ^ 100"
  proof -
    have "x2 - 2 * pi * real n / real L = (a1 - 2 * pi * real n) / real L"
      by (simp add: x2_def diff_divide_distrib)
    then have "\<bar>x2 - 2 * pi * real n / real L\<bar> = \<bar>a1 - 2 * pi * real n\<bar> / real L"
      using r(3) by simp
    also have "\<dots> \<le> (36 / 2 ^ 24 * real n + 1 / 2 ^ 100) / real L"
      using a1 r(3) by (simp add: divide_right_mono)
    also have "\<dots> \<le> 36 / 2 ^ 24 + 1 / 2 ^ 100"
    proof -
      have "36 / 2 ^ 24 * real n \<le> 36 / 2 ^ 24 * real L"
        using r(2) by (simp add: mult_left_mono)
      moreover have "(1 / 2 ^ 100 :: real) \<le> 1 / 2 ^ 100 * real L"
        using r(3) by simp
      ultimately have "36 / 2 ^ 24 * real n + 1 / 2 ^ 100 \<le> (36 / 2 ^ 24 + 1 / 2 ^ 100) * real L"
        by (simp add: distrib_right)
      then show ?thesis
        using r(3) by (simp add: pos_divide_le_eq)
    qed
    finally show ?thesis .
  qed
  have th: "0 \<le> 2 * pi * real n / real L" "2 * pi * real n / real L \<le> 2 * pi"
  proof -
    show "0 \<le> 2 * pi * real n / real L" using r by simp
    have "2 * pi * real n \<le> 2 * pi * real L"
      using r(2) by (simp add: mult_left_mono)
    then show "2 * pi * real n / real L \<le> 2 * pi"
      using r(3) by (simp add: pos_divide_le_eq)
  qed
  have "\<bar>x2\<bar> \<le> 9" using x2 th pi4 unfolding pows by linarith
  then have "\<bar>a2 - x2\<bar> \<le> 9 / 2 ^ 24 + 1 / 2 ^ 100"
    unfolding a2_def by (rule f32_err [OF acc]) simp
  with x2 have "\<bar>a2 - 2 * pi * real n / real L\<bar> \<le> 45 / 2 ^ 24 + 2 / 2 ^ 100"
    unfolding pows by linarith
  then show ?thesis
    by (simp only: window_arg_def a2_def x2_def a1_def a0_def P_def)
qed

lemma cos_f64_err:
  assumes acc: "float_accurate fp" and nL: "n < L" and L: "L \<le> 65535"
  shows "\<bar>cos_f64 fp (window_arg fp L n) - cos (2 * pi * real n / real L)\<bar>
           \<le> 1 / 2 ^ 52 + 45 / 2 ^ 24 + 2 / 2 ^ 100"
proof -
  have "\<bar>cos_f64 fp (window_arg fp L n) - cos (window_arg fp L n)\<bar> \<le> 1 / 2 ^ 52"
    using acc by (simp add: float_accurate_def)
  moreover have "\<bar>cos (window_arg fp L n) - cos (2 * pi * real n / real L)\<bar>
                   \<le> \<bar>window_arg fp L n - 2 * pi * real n / real L\<bar>"
    by (rule cos_lipschitz)
  ultimately show ?thesis
    using window_arg_err [OF acc nL L] by linarith
qed

lemma unat_16_le: "unat (len :: 16 word) \<le> 65535"
proof -
  have "unat len < 2 ^ LENGTH(16)" by (rule unsigned_less)
  then show ?thesis by simp
qed

text \<open>The Hanning coefficient as the code computes it, against the formula.\<close>

lemma hanning_coeff_err:
  assumes acc: "float_accurate fp" and nL: "unat n < unat len"
  shows "\<bar>hanning_coeff fp len n - 0.5 * (1 - cos (2 * pi * real (unat n) / real (unat len)))\<bar>
           \<le> 1 / 2 ^ 19"
proof -
  define th where "th = 2 * pi * real (unat n) / real (unat len)"
  define g where "g = 1 - cos th"
  define c where "c = cos_f64 fp (window_arg fp (unat len) (unat n))"
  define t where "t = f64 fp (1 - c)"
  define h where "h = f64 fp (0.5 * t)"
  have cb: "\<bar>cos th\<bar> \<le> 1" by simp
  then have gb: "\<bar>g\<bar> \<le> 2" unfolding g_def by linarith
  have c: "\<bar>c - cos th\<bar> \<le> 1 / 2 ^ 52 + 45 / 2 ^ 24 + 2 / 2 ^ 100"
    unfolding c_def th_def by (rule cos_f64_err [OF acc nL unat_16_le])
  then have "\<bar>1 - c\<bar> \<le> 3" using cb unfolding pows by linarith
  then have "\<bar>t - (1 - c)\<bar> \<le> 3 / 2 ^ 53 + 1 / 2 ^ 100"
    unfolding t_def by (rule f64_err [OF acc]) simp
  with c have t: "\<bar>t - g\<bar> \<le> 3 / 2 ^ 53 + 1 / 2 ^ 52 + 45 / 2 ^ 24 + 3 / 2 ^ 100"
    unfolding pows g_def by linarith
  then have "\<bar>0.5 * t\<bar> \<le> 2" using gb unfolding pows by linarith
  then have "\<bar>h - 0.5 * t\<bar> \<le> 2 / 2 ^ 53 + 1 / 2 ^ 100"
    unfolding h_def by (rule f64_err [OF acc]) simp
  with t have h: "\<bar>h - 0.5 * g\<bar> \<le> 4 / 2 ^ 53 + 1 / 2 ^ 52 + 23 / 2 ^ 24 + 3 / 2 ^ 100"
    unfolding pows by linarith
  then have "\<bar>h\<bar> \<le> 2" using gb unfolding pows by linarith
  then have "\<bar>f32 fp h - h\<bar> \<le> 2 / 2 ^ 24 + 1 / 2 ^ 100"
    by (rule f32_err [OF acc]) simp
  with h have "\<bar>f32 fp h - 0.5 * g\<bar> \<le> 1 / 2 ^ 19"
    unfolding pows by linarith
  then show ?thesis
    by (simp only: hanning_coeff_def h_def t_def c_def th_def g_def)
qed

text \<open>The Hamming coefficient as the code computes it, against the formula.\<close>

lemma hamming_coeff_err:
  assumes acc: "float_accurate fp" and nL: "unat n < unat len"
  shows "\<bar>hamming_coeff fp len n
            - (0.54 - 0.46 * cos (2 * pi * real (unat n) / real (unat len)))\<bar> \<le> 1 / 2 ^ 19"
proof -
  define th where "th = 2 * pi * real (unat n) / real (unat len)"
  define c where "c = cos_f64 fp (window_arg fp (unat len) (unat n))"
  define k46 where "k46 = f64 fp 0.46"
  define k54 where "k54 = f64 fp 0.54"
  define pc where "pc = k46 * c"
  define e1 where "e1 = (k46 - 0.46) * c"
  define m where "m = f64 fp pc"
  define s where "s = f64 fp (k54 - m)"
  have cb: "\<bar>cos th\<bar> \<le> 1" by simp
  have c: "\<bar>c - cos th\<bar> \<le> 1 / 2 ^ 52 + 45 / 2 ^ 24 + 2 / 2 ^ 100"
    unfolding c_def th_def by (rule cos_f64_err [OF acc nL unat_16_le])
  then have cm: "\<bar>c\<bar> \<le> 2" using cb unfolding pows by linarith
  have "\<bar>(0.46::real)\<bar> \<le> 1" by simp
  then have k46: "\<bar>k46 - 0.46\<bar> \<le> 1 / 2 ^ 53 + 1 / 2 ^ 100"
    unfolding k46_def by (rule f64_err [OF acc]) simp
  have "\<bar>(0.54::real)\<bar> \<le> 1" by simp
  then have k54: "\<bar>k54 - 0.54\<bar> \<le> 1 / 2 ^ 53 + 1 / 2 ^ 100"
    unfolding k54_def by (rule f64_err [OF acc]) simp
  have "\<bar>e1\<bar> \<le> (1 / 2 ^ 53 + 1 / 2 ^ 100) * 2"
    unfolding e1_def abs_mult using k46 cm by (intro mult_mono) simp_all
  then have e1: "\<bar>e1\<bar> \<le> 2 / 2 ^ 53 + 2 / 2 ^ 100"
    by (simp add: distrib_right)
  have rel: "pc = e1 + 0.46 * c"
    by (simp add: pc_def e1_def left_diff_distrib)
  have p: "\<bar>pc - 0.46 * cos th\<bar> \<le> 2 / 2 ^ 53 + 1 / 2 ^ 52 + 21 / 2 ^ 24 + 3 / 2 ^ 100"
    using e1 c unfolding rel pows decs by linarith
  then have "\<bar>pc\<bar> \<le> 2" using cb unfolding pows decs by linarith
  then have "\<bar>m - pc\<bar> \<le> 2 / 2 ^ 53 + 1 / 2 ^ 100"
    unfolding m_def by (rule f64_err [OF acc]) simp
  with p k54 have d: "\<bar>(k54 - m) - (0.54 - 0.46 * cos th)\<bar>
      \<le> 5 / 2 ^ 53 + 1 / 2 ^ 52 + 21 / 2 ^ 24 + 5 / 2 ^ 100"
    unfolding pows decs by linarith
  then have "\<bar>k54 - m\<bar> \<le> 2" using cb unfolding pows decs by linarith
  then have "\<bar>s - (k54 - m)\<bar> \<le> 2 / 2 ^ 53 + 1 / 2 ^ 100"
    unfolding s_def by (rule f64_err [OF acc]) simp
  with d have s: "\<bar>s - (0.54 - 0.46 * cos th)\<bar>
      \<le> 7 / 2 ^ 53 + 1 / 2 ^ 52 + 21 / 2 ^ 24 + 6 / 2 ^ 100"
    unfolding pows decs by linarith
  then have "\<bar>s\<bar> \<le> 2" using cb unfolding pows decs by linarith
  then have "\<bar>f32 fp s - s\<bar> \<le> 2 / 2 ^ 24 + 1 / 2 ^ 100"
    by (rule f32_err [OF acc]) simp
  with s have "\<bar>f32 fp s - (0.54 - 0.46 * cos th)\<bar> \<le> 1 / 2 ^ 19"
    unfolding pows decs by linarith
  then show ?thesis
    by (simp only: hamming_coeff_def s_def m_def pc_def k46_def k54_def c_def th_def)
qed

subsection \<open>The reference arithmetic\<close>

text \<open>Rounding to \<open>p\<close> significant bits is off by at most \<open>2^-p\<close>, relative.\<close>

lemma round_to_err: "\<bar>round_to p x - x\<bar> \<le> \<bar>x\<bar> / 2 ^ p"
proof (cases "x = 0")
  case True
  then show ?thesis by (simp add: round_to_def)
next
  case False
  define e where "e = \<lfloor>log 2 \<bar>x\<bar>\<rfloor>"
  define q where "q = 2 powr (of_int e - real p + 1)"
  define z where "z = x / q"
  define r where "r = \<lfloor>z + 1 / 2\<rfloor>"
  have qpos: "0 < q" by (simp add: q_def)
  have ax: "0 < \<bar>x\<bar>" using False by simp
  have "of_int r \<le> z + 1 / 2" "z + 1 / 2 < of_int r + 1"
    unfolding r_def by linarith+
  then have rz: "\<bar>of_int r - z\<bar> \<le> 1 / 2" by linarith
  have "round_to p x - x = (of_int r - z) * q"
    using qpos False by (simp add: round_to_def r_def z_def q_def e_def left_diff_distrib)
  then have "\<bar>round_to p x - x\<bar> = \<bar>of_int r - z\<bar> * q"
    using qpos by (simp add: abs_mult)
  also have "\<dots> \<le> 1 / 2 * q"
    using rz qpos by (intro mult_right_mono) simp_all
  also have "\<dots> = 2 powr of_int e / 2 ^ p"
  proof -
    have "of_int e - real p + 1 = of_int e + (1 - real p)" by simp
    then have "q = 2 powr of_int e * 2 powr (1 - real p)"
      by (simp only: q_def powr_add)
    also have "(2::real) powr (1 - real p) = 2 / 2 ^ p"
      by (simp add: powr_diff powr_realpow)
    finally show ?thesis by simp
  qed
  also have "\<dots> \<le> \<bar>x\<bar> / 2 ^ p"
  proof -
    have "of_int e \<le> log 2 \<bar>x\<bar>" unfolding e_def by linarith
    then have "(2::real) powr of_int e \<le> 2 powr log 2 \<bar>x\<bar>" by simp
    also have "\<dots> = \<bar>x\<bar>" using ax by simp
    finally show ?thesis by (simp add: divide_right_mono)
  qed
  finally show ?thesis .
qed

text \<open>A rounded number is rational.\<close>

lemma round_to_rat: "round_to p x \<in> \<rat>"
proof -
  have "(2::real) powr (of_int k) \<in> \<rat>" for k :: int
    by (simp add: powr_real_of_int)
  moreover have "of_int \<lfloor>log 2 \<bar>x\<bar>\<rfloor> - real p + 1 = of_int (\<lfloor>log 2 \<bar>x\<bar>\<rfloor> - int p + 1)"
    by simp
  ultimately have "(2::real) powr (of_int \<lfloor>log 2 \<bar>x\<bar>\<rfloor> - real p + 1) \<in> \<rat>"
    by (simp only:)
  then show ?thesis
    by (simp add: round_to_def)
qed

lemma ref_fp_accurate: "float_accurate ref_fp"
proof -
  have a: "\<bar>round_to 24 x - x\<bar> \<le> \<bar>x\<bar> / 2 ^ 24 + 1 / 2 ^ 100" for x
    using round_to_err [of 24 x] by simp
  have b: "\<bar>round_to 53 x - x\<bar> \<le> \<bar>x\<bar> / 2 ^ 53 + 1 / 2 ^ 100" for x
    using round_to_err [of 53 x] by simp
  have c: "\<bar>round_to 53 (cos x) - cos x\<bar> \<le> 1 / 2 ^ 52" for x
  proof -
    have "\<bar>cos x\<bar> / 2 ^ 53 \<le> 1 / 2 ^ 53"
      by (intro divide_right_mono) simp_all
    with round_to_err [of 53 "cos x"] show ?thesis
      unfolding pows by linarith
  qed
  have d: "\<bar>round_to 24 (round_to 53 pi) - pi\<bar> \<le> 1 / 2 ^ 21"
  proof -
    have pi4: "pi < 4" by (rule pi_less_4)
    have pi0: "0 < pi" by simp
    have "\<bar>pi\<bar> / 2 ^ 53 \<le> 4 / 2 ^ 53"
      using pi4 by (intro divide_right_mono) simp_all
    with round_to_err [of 53 pi] have p1: "\<bar>round_to 53 pi - pi\<bar> \<le> 4 / 2 ^ 53"
      by linarith
    then have "\<bar>round_to 53 pi\<bar> \<le> 5" using pi4 pi0 unfolding pows by linarith
    then have "\<bar>round_to 53 pi\<bar> / 2 ^ 24 \<le> 5 / 2 ^ 24"
      by (intro divide_right_mono) simp_all
    with round_to_err [of 24 "round_to 53 pi"] p1 show ?thesis
      unfolding pows by linarith
  qed
  show ?thesis
    by (simp only: float_accurate_def ref_fp_def float_ops.select_convs a b c d simp_thms)
qed

text \<open>The square root of 2 is not rational, and no rational number is off it by a rational factor.\<close>

lemma sqrt2_irrational: "sqrt 2 \<notin> \<rat>"
proof
  assume "sqrt 2 \<in> \<rat>"
  then obtain m n :: nat where n: "n \<noteq> 0" and eq: "\<bar>sqrt 2\<bar> = real m / real n"
    and cop: "coprime m n"
    by (rule Rats_abs_nat_div_natE)
  from eq n have "sqrt 2 * real n = real m" by (simp add: field_simps)
  then have "(sqrt 2 * real n)\<^sup>2 = (real m)\<^sup>2" by simp
  then have "2 * (real n)\<^sup>2 = (real m)\<^sup>2" by (simp add: power_mult_distrib)
  then have "real (2 * n\<^sup>2) = real (m\<^sup>2)" by simp
  then have sq: "2 * n\<^sup>2 = m\<^sup>2" by (simp only: of_nat_eq_iff)
  then have "even (m\<^sup>2)" by (metis dvd_triv_left)
  then have "even m" by simp
  then obtain k where k: "m = 2 * k" by (auto elim: evenE)
  with sq have "n\<^sup>2 = 2 * k\<^sup>2" by (simp add: power_mult_distrib)
  then have "even (n\<^sup>2)" by simp
  then have "even n" by simp
  with \<open>even m\<close> show False
    using coprime_common_divisor_nat [OF cop, of 2] by simp
qed

lemma sqrt2_affine_irrational:
  assumes "a \<in> \<rat>" and "b \<in> \<rat>" and "b \<noteq> 0"
  shows "a - b * sqrt 2 \<notin> \<rat>"
proof
  assume "a - b * sqrt 2 \<in> \<rat>"
  with assms(1) have "a - (a - b * sqrt 2) \<in> \<rat>" by (rule Rats_diff)
  then have "b * sqrt 2 \<in> \<rat>" by simp
  with assms(2) have "b * sqrt 2 / b \<in> \<rat>" by (intro Rats_divide)
  with assms(3) have "sqrt 2 \<in> \<rat>" by simp
  with sqrt2_irrational show False by simp
qed

section \<open>Properties of the window functions\<close>

declare window_loop.simps [simp del]

text \<open>A counter below the length does not wrap when it is incremented.\<close>

lemma unat_Suc_less: "n < len \<Longrightarrow> unat (n + 1) = Suc (unat n)" for n :: "'a::len word"
proof -
  assume lt: "n < len"
  then have "n \<noteq> - 1"
    by (metis word_order.extremum_strict)
  then have "n + 1 \<noteq> 0"
    by (metis add.commute add_eq_0_iff)
  then show ?thesis
    by (metis add.commute unatSuc)
qed

text \<open>The loop leaves every cell alone that is not one of its targets.\<close>

lemma window_loop_other:
  "(\<And>k. n \<le> k \<Longrightarrow> k < len \<Longrightarrow> a \<noteq> buf + unat k) \<Longrightarrow> window_loop w buf len n mem a = mem a"
proof (induction w buf len n mem rule: window_loop.induct)
  case (1 w buf len n mem)
  show ?case
  proof (cases "n < len")
    case True
    have le: "n \<le> n + 1"
      using True unat_Suc_less [OF True] by (simp add: word_le_nat_alt)
    have "window_loop w buf len (n + 1) (mem(buf + unat n := w n)) a = (mem(buf + unat n := w n)) a"
    proof (rule "1.IH" [OF True])
      fix k assume "n + 1 \<le> k" "k < len"
      with le have "n \<le> k" by simp
      then show "a \<noteq> buf + unat k" using \<open>k < len\<close> "1.prems" by blast
    qed
    moreover have "a \<noteq> buf + unat n"
      using "1.prems" [of n] True by simp
    ultimately show ?thesis
      using True by (simp add: window_loop.simps [of w buf len n mem])
  next
    case False
    then show ?thesis by (simp add: window_loop.simps [of w buf len n mem])
  qed
qed

text \<open>Every index from the counter up to the length gets its coefficient.\<close>

lemma window_loop_at:
  "n \<le> k \<Longrightarrow> k < len \<Longrightarrow> window_loop w buf len n mem (buf + unat k) = w k"
proof (induction w buf len n mem rule: window_loop.induct)
  case (1 w buf len n mem)
  from "1.prems" have lt: "n < len" by simp
  have suc: "unat (n + 1) = Suc (unat n)" by (rule unat_Suc_less [OF lt])
  show ?case
  proof (cases "k = n")
    case True
    have "window_loop w buf len (n + 1) (mem(buf + unat n := w n)) (buf + unat n)
            = (mem(buf + unat n := w n)) (buf + unat n)"
    proof (rule window_loop_other)
      fix j assume "n + 1 \<le> j" "j < len"
      then have "unat n < unat j" using suc by (simp add: word_le_nat_alt)
      then show "buf + unat n \<noteq> buf + unat j" by simp
    qed
    then show ?thesis using True lt by (simp add: window_loop.simps [of w buf len n mem])
  next
    case False
    with "1.prems" have "unat n < unat k"
      by (metis le_neq_trans word_le_nat_alt word_unat_eq_iff)
    then have "n + 1 \<le> k" using suc by (simp add: word_le_nat_alt)
    with lt "1.prems"(2)
    have "window_loop w buf len (n + 1) (mem(buf + unat n := w n)) (buf + unat k) = w k"
      by (intro "1.IH")
    moreover have "window_loop w buf len n mem = window_loop w buf len (n + 1) (mem(buf + unat n := w n))"
      using lt by (subst window_loop.simps) simp
    ultimately show ?thesis by (simp only:)
  qed
qed

lemma unat_of_nat_below: "n < unat (len :: 16 word) \<Longrightarrow> unat (of_nat n :: 16 word) = n"
  by (metis le_unat_uoi less_imp_le_nat)

lemma window_loop_nat:
  assumes "n < unat len"
  shows "window_loop w buf len 0 mem (buf + n) = w (of_nat n)"
proof -
  have eq: "unat (of_nat n :: 16 word) = n"
    using assms by (rule unat_of_nat_below)
  then have "(of_nat n :: 16 word) < len"
    using assms by (simp add: word_less_nat_alt)
  then show ?thesis
    using eq window_loop_at [of 0 "of_nat n" len w buf mem] by simp
qed

text \<open>
  Claim C3, as the spec states it: window initialization fails with an InvalidLength error
  returned to the caller when the length is zero. The function is \<^verbatim>\<open>void\<close> and tests
  nothing: called with length zero on a Hanning selector it ends as every other call does,
  with the pointer, the length zero and the selector stored in the block and the store as
  it was. The result has no status.
\<close>

theorem window_blockInit_zero_length:
  "CMSIS_DSP_windowFunction_blockInit ref_fp wt0 w0 100 1 0 (\<lambda>a. 3)
     = (\<lparr>w_value = 100, w_length = 0, w_type = 1\<rparr>, (\<lambda>a. 3))"
  by (simp add: CMSIS_DSP_windowFunction_blockInit_def wt0_def w0_def window_loop.simps)

text \<open>
  Claim C3, amended: window initialization returns no status and never fails. For every
  length, zero included, and every selector it stores the buffer pointer, the length and
  the selector in the block; called with length zero it writes no coefficient, so the
  store is left as it was. This holds for every floating-point arithmetic.
\<close>

theorem window_blockInit_no_status:
  "fst (CMSIS_DSP_windowFunction_blockInit fp wt s buf t L mem)
     = s\<lparr>w_value := buf, w_length := L, w_type := t\<rparr>
   \<and> snd (CMSIS_DSP_windowFunction_blockInit fp wt s buf t 0 mem) = mem"
  by (simp add: CMSIS_DSP_windowFunction_blockInit_def Let_def window_loop.simps)

text \<open>What the Hanning and the Hamming branch leave in the cell of index \<open>n\<close>.\<close>

lemma window_blockInit_hanning_cell:
  assumes "WINDOW_TYPE_HANNING wt \<noteq> WINDOW_TYPE_RECTANGULAR wt" and "n < unat L"
  shows "snd (CMSIS_DSP_windowFunction_blockInit fp wt s buf (WINDOW_TYPE_HANNING wt) L mem) (buf + n)
           = hanning_coeff fp L (of_nat n)"
  using assms(1) window_loop_nat [OF assms(2), of "hanning_coeff fp L" buf mem]
  by (simp add: CMSIS_DSP_windowFunction_blockInit_def Let_def)

lemma window_blockInit_hamming_cell:
  assumes "WINDOW_TYPE_HAMMING wt \<noteq> WINDOW_TYPE_RECTANGULAR wt"
    and "WINDOW_TYPE_HAMMING wt \<noteq> WINDOW_TYPE_HANNING wt" and "n < unat L"
  shows "snd (CMSIS_DSP_windowFunction_blockInit fp wt s buf (WINDOW_TYPE_HAMMING wt) L mem) (buf + n)
           = hamming_coeff fp L (of_nat n)"
  using assms(1,2) window_loop_nat [OF assms(3), of "hamming_coeff fp L" buf mem]
  by (simp add: CMSIS_DSP_windowFunction_blockInit_def Let_def)

lemma cos_pi_quarter: "cos (2 * pi * real (1::nat) / real (unat (8 :: 16 word))) = sqrt 2 / 2"
proof -
  have "2 * pi * real (1::nat) / real (unat (8 :: 16 word)) = pi / 4" by simp
  then show ?thesis by (simp only: cos_45)
qed

lemma cos_pi_half_4: "cos (2 * pi * real (1::nat) / real (unat (4 :: 16 word))) = 0"
proof -
  have "2 * pi * real (1::nat) / real (unat (4 :: 16 word)) = pi / 2" by simp
  then show ?thesis by (simp only: cos_pi_half)
qed

text \<open>
  Claim C5, as the spec states it: initializing a window block with the Hanning kind sets
  \<open>w[n] = 0.5 * (1 - cos(2*pi*n/L))\<close>. The code computes the argument of the cosine in
  \<^verbatim>\<open>float32_t\<close> and stores a \<^verbatim>\<open>float32_t\<close>. For \<open>L = 8\<close> and \<open>n = 1\<close> the formula
  gives \<open>1/2 - sqrt 2 / 4\<close>, which is not rational, and the stored number is a rounded
  one, which is: the two differ.
\<close>

theorem window_blockInit_hanning_inexact:
  "snd (CMSIS_DSP_windowFunction_blockInit ref_fp wt0 w0 100 (WINDOW_TYPE_HANNING wt0) 8 (\<lambda>a. 3))
       (100 + 1)
     \<noteq> 0.5 * (1 - cos (2 * pi * real (1::nat) / real (unat (8 :: 16 word))))"
proof -
  have h1: "WINDOW_TYPE_HANNING wt0 \<noteq> WINDOW_TYPE_RECTANGULAR wt0" by (simp add: wt0_def)
  have h2: "(1::nat) < unat (8 :: 16 word)" by simp
  have "snd (CMSIS_DSP_windowFunction_blockInit ref_fp wt0 w0 100 (WINDOW_TYPE_HANNING wt0) 8 (\<lambda>a. 3))
          (100 + 1) = hanning_coeff ref_fp 8 (of_nat 1)"
    by (rule window_blockInit_hanning_cell [OF h1 h2])
  also have "\<dots> \<in> \<rat>"
    by (simp add: hanning_coeff_def ref_fp_def round_to_rat)
  finally have stored: "snd (CMSIS_DSP_windowFunction_blockInit ref_fp wt0 w0 100
      (WINDOW_TYPE_HANNING wt0) 8 (\<lambda>a. 3)) (100 + 1) \<in> \<rat>" .
  have irr: "(1 / 2 :: real) - 1 / 4 * sqrt 2 \<notin> \<rat>"
    by (rule sqrt2_affine_irrational) simp_all
  have eq: "0.5 * (1 - cos (2 * pi * real (1::nat) / real (unat (8 :: 16 word))))
      = (1 / 2 :: real) - 1 / 4 * sqrt 2"
    by (simp only: cos_pi_quarter) (simp add: algebra_simps)
  have "0.5 * (1 - cos (2 * pi * real (1::nat) / real (unat (8 :: 16 word)))) \<notin> \<rat>"
    unfolding eq by (rule irr)
  with stored show ?thesis
    by metis
qed

text \<open>
  Claim C5, amended: for every window length \<open>L > 0\<close> and every index \<open>n\<close> in
  \<open>[0, L)\<close>, initializing a window block with the Hanning kind sets the coefficient
  \<open>w[n]\<close> to a \<^verbatim>\<open>float32_t\<close> within \<open>2^-19\<close> of \<open>0.5 * (1 - cos(2*pi*n/L))\<close>,
  on a floating-point arithmetic that is accurate as \<open>float_accurate\<close> says. The
  Hanning branch is the second of the chain, so its selector must differ from the
  rectangular one.
\<close>

theorem window_blockInit_hanning:
  assumes "float_accurate fp"
    and "WINDOW_TYPE_HANNING wt \<noteq> WINDOW_TYPE_RECTANGULAR wt" and "n < unat L"
  shows "\<bar>snd (CMSIS_DSP_windowFunction_blockInit fp wt s buf (WINDOW_TYPE_HANNING wt) L mem) (buf + n)
            - 0.5 * (1 - cos (2 * pi * real n / real (unat L)))\<bar> \<le> 1 / 2 ^ 19"
proof -
  have idx: "unat (of_nat n :: 16 word) = n"
    using assms(3) by (rule unat_of_nat_below)
  then have "unat (of_nat n :: 16 word) < unat L"
    using assms(3) by simp
  from hanning_coeff_err [OF assms(1) this] show ?thesis
    by (simp only: idx window_blockInit_hanning_cell [OF assms(2,3)])
qed

text \<open>
  A Hanning window of length 4 on the reference arithmetic: the formula gives
  \<open>0.5 * (1 - cos (pi/2)) = 1/2\<close> at index 1, and the stored coefficient is within
  \<open>2^-19\<close> of it.
\<close>

theorem window_blockInit_hanning_witness:
  "float_accurate ref_fp
   \<and> WINDOW_TYPE_HANNING wt0 \<noteq> WINDOW_TYPE_RECTANGULAR wt0 \<and> (1::nat) < unat (4 :: 16 word)
   \<and> \<bar>snd (CMSIS_DSP_windowFunction_blockInit ref_fp wt0 w0 100 (WINDOW_TYPE_HANNING wt0) 4 (\<lambda>a. 3))
          (100 + 1) - 1 / 2\<bar> \<le> 1 / 2 ^ 19"
proof -
  have h1: "WINDOW_TYPE_HANNING wt0 \<noteq> WINDOW_TYPE_RECTANGULAR wt0" by (simp add: wt0_def)
  have h2: "(1::nat) < unat (4 :: 16 word)" by simp
  have "0.5 * (1 - cos (2 * pi * real (1::nat) / real (unat (4 :: 16 word)))) = 1 / 2"
    by (simp only: cos_pi_half_4) simp
  with window_blockInit_hanning [OF ref_fp_accurate h1 h2, of w0 100 "\<lambda>a. 3"]
  have "\<bar>snd (CMSIS_DSP_windowFunction_blockInit ref_fp wt0 w0 100 (WINDOW_TYPE_HANNING wt0) 4 (\<lambda>a. 3))
          (100 + 1) - 1 / 2\<bar> \<le> 1 / 2 ^ 19"
    by (simp only:)
  with ref_fp_accurate h1 h2 show ?thesis
    by (simp only: simp_thms)
qed

text \<open>
  Claim C6, as the spec states it: initializing a window block with the Hamming kind sets
  \<open>w[n] = 0.54 - 0.46 * cos(2*pi*n/L)\<close>. The code computes the argument of the cosine
  in \<^verbatim>\<open>float32_t\<close> and stores a \<^verbatim>\<open>float32_t\<close>. For \<open>L = 8\<close> and \<open>n = 1\<close> the
  formula gives \<open>27/50 - 23/100 * sqrt 2\<close>, which is not rational, and the stored number
  is a rounded one, which is: the two differ.
\<close>

theorem window_blockInit_hamming_inexact:
  "snd (CMSIS_DSP_windowFunction_blockInit ref_fp wt0 w0 100 (WINDOW_TYPE_HAMMING wt0) 8 (\<lambda>a. 3))
       (100 + 1)
     \<noteq> 0.54 - 0.46 * cos (2 * pi * real (1::nat) / real (unat (8 :: 16 word)))"
proof -
  have h1: "WINDOW_TYPE_HAMMING wt0 \<noteq> WINDOW_TYPE_RECTANGULAR wt0" by (simp add: wt0_def)
  have h2: "WINDOW_TYPE_HAMMING wt0 \<noteq> WINDOW_TYPE_HANNING wt0" by (simp add: wt0_def)
  have h3: "(1::nat) < unat (8 :: 16 word)" by simp
  have "snd (CMSIS_DSP_windowFunction_blockInit ref_fp wt0 w0 100 (WINDOW_TYPE_HAMMING wt0) 8 (\<lambda>a. 3))
          (100 + 1) = hamming_coeff ref_fp 8 (of_nat 1)"
    by (rule window_blockInit_hamming_cell [OF h1 h2 h3])
  also have "\<dots> \<in> \<rat>"
    by (simp add: hamming_coeff_def ref_fp_def round_to_rat)
  finally have stored: "snd (CMSIS_DSP_windowFunction_blockInit ref_fp wt0 w0 100
      (WINDOW_TYPE_HAMMING wt0) 8 (\<lambda>a. 3)) (100 + 1) \<in> \<rat>" .
  have irr: "(27 / 50 :: real) - 23 / 100 * sqrt 2 \<notin> \<rat>"
    by (rule sqrt2_affine_irrational) simp_all
  have eq: "0.54 - 0.46 * cos (2 * pi * real (1::nat) / real (unat (8 :: 16 word)))
      = (27 / 50 :: real) - 23 / 100 * sqrt 2"
    by (simp only: cos_pi_quarter) (simp add: algebra_simps)
  have "0.54 - 0.46 * cos (2 * pi * real (1::nat) / real (unat (8 :: 16 word))) \<notin> \<rat>"
    unfolding eq by (rule irr)
  with stored show ?thesis
    by metis
qed

text \<open>
  Claim C6, amended: for every window length \<open>L > 0\<close> and every index \<open>n\<close> in
  \<open>[0, L)\<close>, initializing a window block with the Hamming kind sets the coefficient
  \<open>w[n]\<close> to a \<^verbatim>\<open>float32_t\<close> within \<open>2^-19\<close> of \<open>0.54 - 0.46 * cos(2*pi*n/L)\<close>,
  on a floating-point arithmetic that is accurate as \<open>float_accurate\<close> says. The
  Hamming branch is the third of the chain, so its selector must differ from the other
  two.
\<close>

theorem window_blockInit_hamming:
  assumes "float_accurate fp"
    and "WINDOW_TYPE_HAMMING wt \<noteq> WINDOW_TYPE_RECTANGULAR wt"
    and "WINDOW_TYPE_HAMMING wt \<noteq> WINDOW_TYPE_HANNING wt" and "n < unat L"
  shows "\<bar>snd (CMSIS_DSP_windowFunction_blockInit fp wt s buf (WINDOW_TYPE_HAMMING wt) L mem) (buf + n)
            - (0.54 - 0.46 * cos (2 * pi * real n / real (unat L)))\<bar> \<le> 1 / 2 ^ 19"
proof -
  have idx: "unat (of_nat n :: 16 word) = n"
    using assms(4) by (rule unat_of_nat_below)
  then have "unat (of_nat n :: 16 word) < unat L"
    using assms(4) by simp
  from hamming_coeff_err [OF assms(1) this] show ?thesis
    by (simp only: idx window_blockInit_hamming_cell [OF assms(2,3,4)])
qed

text \<open>
  A Hamming window of length 4 on the reference arithmetic: the formula gives
  \<open>0.54 - 0.46 * cos (pi/2) = 27/50\<close> at index 1, and the stored coefficient is within
  \<open>2^-19\<close> of it.
\<close>

theorem window_blockInit_hamming_witness:
  "float_accurate ref_fp
   \<and> WINDOW_TYPE_HAMMING wt0 \<noteq> WINDOW_TYPE_RECTANGULAR wt0
   \<and> WINDOW_TYPE_HAMMING wt0 \<noteq> WINDOW_TYPE_HANNING wt0 \<and> (1::nat) < unat (4 :: 16 word)
   \<and> \<bar>snd (CMSIS_DSP_windowFunction_blockInit ref_fp wt0 w0 100 (WINDOW_TYPE_HAMMING wt0) 4 (\<lambda>a. 3))
          (100 + 1) - 27 / 50\<bar> \<le> 1 / 2 ^ 19"
proof -
  have h1: "WINDOW_TYPE_HAMMING wt0 \<noteq> WINDOW_TYPE_RECTANGULAR wt0" by (simp add: wt0_def)
  have h2: "WINDOW_TYPE_HAMMING wt0 \<noteq> WINDOW_TYPE_HANNING wt0" by (simp add: wt0_def)
  have h3: "(1::nat) < unat (4 :: 16 word)" by simp
  have "0.54 - 0.46 * cos (2 * pi * real (1::nat) / real (unat (4 :: 16 word))) = (27 / 50 :: real)"
    by (simp only: cos_pi_half_4) simp
  with window_blockInit_hamming [OF ref_fp_accurate h1 h2 h3, of w0 100 "\<lambda>a. 3"]
  have "\<bar>snd (CMSIS_DSP_windowFunction_blockInit ref_fp wt0 w0 100 (WINDOW_TYPE_HAMMING wt0) 4 (\<lambda>a. 3))
          (100 + 1) - 27 / 50\<bar> \<le> 1 / 2 ^ 19"
    by (simp only:)
  with ref_fp_accurate h1 h2 h3 show ?thesis
    by (simp only: simp_thms)
qed

text \<open>
  Claim C9: for every coefficient buffer, every length \<open>L\<close> and every selector that is
  none of the three window kinds, window initialization stores the selector, the length
  and the buffer pointer in the block and leaves every cell of the store, the
  coefficient buffer included, as it was; so a later apply multiplies the input by the
  values the buffer already held. The apply is taken on an output buffer that shares no
  cell with the coefficient buffer and is the input buffer itself or shares no cell
  with it. This holds for every floating-point arithmetic.
\<close>

theorem window_blockInit_unknown_type:
  assumes "t \<noteq> WINDOW_TYPE_RECTANGULAR wt" and "t \<noteq> WINDOW_TYPE_HANNING wt"
    and "t \<noteq> WINDOW_TYPE_HAMMING wt"
  shows "CMSIS_DSP_windowFunction_blockInit fp wt s buf t L mem
           = (s\<lparr>w_value := buf, w_length := L, w_type := t\<rparr>, mem)
         \<and> (\<forall>pInput pOutput n.
               n < unat L \<and> disjoint pOutput (unat L) buf (unat L)
               \<and> (pOutput = pInput \<or> disjoint pOutput (unat L) pInput (unat L))
               \<longrightarrow> CMSIS_DSP_windowFunciton_apply
                     (fst (CMSIS_DSP_windowFunction_blockInit fp wt s buf t L mem)) pInput pOutput
                     (snd (CMSIS_DSP_windowFunction_blockInit fp wt s buf t L mem)) (pOutput + n)
                   = mem (pInput + n) * mem (buf + n))"
  using assms
  by (simp add: CMSIS_DSP_windowFunction_blockInit_def Let_def
      CMSIS_DSP_windowFunciton_apply_def arm_mult_f32_def)

text \<open>
  Selector 7 on a buffer at 100 whose cells hold their own addresses: the store is
  unchanged, and an in-place apply at 400 multiplies cell 401 by the old cell 101.
\<close>

theorem window_blockInit_unknown_type_witness:
  "CMSIS_DSP_windowFunction_blockInit ref_fp wt0 w0 100 7 2 (\<lambda>a. real a)
     = (\<lparr>w_value = 100, w_length = 2, w_type = 7\<rparr>, (\<lambda>a. real a))
   \<and> CMSIS_DSP_windowFunciton_apply
        (fst (CMSIS_DSP_windowFunction_blockInit ref_fp wt0 w0 100 7 2 (\<lambda>a. real a))) 400 400
        (snd (CMSIS_DSP_windowFunction_blockInit ref_fp wt0 w0 100 7 2 (\<lambda>a. real a))) (400 + 1)
      = 401 * 101"
proof -
  have h: "(7 :: 8 word) \<noteq> WINDOW_TYPE_RECTANGULAR wt0" "(7 :: 8 word) \<noteq> WINDOW_TYPE_HANNING wt0"
    "(7 :: 8 word) \<noteq> WINDOW_TYPE_HAMMING wt0"
    by (simp_all add: wt0_def)
  note T = window_blockInit_unknown_type [OF h, of ref_fp w0 100 2 "\<lambda>a. real a"]
  from T have A: "CMSIS_DSP_windowFunction_blockInit ref_fp wt0 w0 100 7 2 (\<lambda>a. real a)
     = (\<lparr>w_value = 100, w_length = 2, w_type = 7\<rparr>, (\<lambda>a. real a))"
    by (simp add: w0_def)
  have "CMSIS_DSP_windowFunciton_apply
        (fst (CMSIS_DSP_windowFunction_blockInit ref_fp wt0 w0 100 7 2 (\<lambda>a. real a))) 400 400
        (snd (CMSIS_DSP_windowFunction_blockInit ref_fp wt0 w0 100 7 2 (\<lambda>a. real a))) (400 + 1)
      = real (400 + 1) * real (100 + 1)"
    by (rule T [THEN conjunct2, THEN spec [of _ 400], THEN spec [of _ 400], THEN spec [of _ 1], THEN mp])
       (simp add: disjoint_def)
  with A show ?thesis
    by simp
qed

section \<open>Properties of the real FFT block\<close>

text \<open>
  Claim C10: real-FFT block initialization assigns the length and both scratch pointers
  to the block before it calls the kernel initializer, so whenever the kernel
  initializer reports a failure the wrapper returns that failure and the block
  nonetheless holds the new length and the new scratch pointers: initialization is not
  atomic. This holds for every kernel.
\<close>

theorem real_FFT_blockInit_not_atomic:
  assumes "fst (arm_rfft_fast_init_f32 K (rfft_arm_struct s) n) \<noteq> ARM_MATH_SUCCESS"
  shows "fst (CMSIS_DSP_real_FFT_f32_blockInit K s t1 t2 n) \<noteq> ARM_MATH_SUCCESS
         \<and> rfft_length (snd (CMSIS_DSP_real_FFT_f32_blockInit K s t1 t2 n)) = n
         \<and> tmpBuffer_1 (snd (CMSIS_DSP_real_FFT_f32_blockInit K s t1 t2 n)) = t1
         \<and> tmpBuffer_2 (snd (CMSIS_DSP_real_FFT_f32_blockInit K s t1 t2 n)) = t2"
  using assms by (simp add: CMSIS_DSP_real_FFT_f32_blockInit_def Let_def)

text \<open>
  On the reference kernel, length 100 is refused; the block that held length 64 and
  scratch at 1000 and 2000 now holds length 100 and scratch at 10 and 20.
\<close>

theorem real_FFT_blockInit_not_atomic_witness:
  "fst (arm_rfft_fast_init_f32 ref_kernel (rfft_arm_struct f0) 100) \<noteq> ARM_MATH_SUCCESS
   \<and> fst (CMSIS_DSP_real_FFT_f32_blockInit ref_kernel f0 10 20 100) = ARM_MATH_LENGTH_ERROR
   \<and> rfft_length (snd (CMSIS_DSP_real_FFT_f32_blockInit ref_kernel f0 10 20 100)) = 100
   \<and> tmpBuffer_1 (snd (CMSIS_DSP_real_FFT_f32_blockInit ref_kernel f0 10 20 100)) = 10
   \<and> tmpBuffer_2 (snd (CMSIS_DSP_real_FFT_f32_blockInit ref_kernel f0 10 20 100)) = 20
   \<and> snd (CMSIS_DSP_real_FFT_f32_blockInit ref_kernel f0 10 20 100) \<noteq> f0"
proof -
  have h: "fst (arm_rfft_fast_init_f32 ref_kernel (rfft_arm_struct f0) 100) \<noteq> ARM_MATH_SUCCESS"
    by (simp add: ref_kernel_def ref_rfft_init_def ARM_MATH_SUCCESS_def ARM_MATH_LENGTH_ERROR_def)
  have e: "fst (CMSIS_DSP_real_FFT_f32_blockInit ref_kernel f0 10 20 100) = ARM_MATH_LENGTH_ERROR"
    by (simp add: CMSIS_DSP_real_FFT_f32_blockInit_def Let_def ref_kernel_def ref_rfft_init_def)
  have "rfft_length (snd (CMSIS_DSP_real_FFT_f32_blockInit ref_kernel f0 10 20 100)) \<noteq> rfft_length f0"
    using real_FFT_blockInit_not_atomic [OF h, of 10 20] by (simp add: f0_def)
  then have "snd (CMSIS_DSP_real_FFT_f32_blockInit ref_kernel f0 10 20 100) \<noteq> f0"
    by auto
  then show ?thesis
    using h e real_FFT_blockInit_not_atomic [OF h, of 10 20] by simp
qed

text \<open>The sample block \<open>f1\<close>.\<close>

lemma f1_eq:
  "f1 = \<lparr>rfft_arm_struct = \<lparr>fftLenRFFT = 32\<rparr>, rfft_length = 32,
         tmpBuffer_1 = 100, tmpBuffer_2 = 200\<rparr>"
  by (simp add: f1_def f0_def CMSIS_DSP_real_FFT_f32_blockInit_def Let_def ref_kernel_def
      ref_rfft_init_def)

subsection \<open>The reference kernel\<close>

text \<open>The cells of the packed spectrum as sums.\<close>

lemma sum_list_upt_sum: "sum_list (map f [a..<b]) = sum f {a..<b}"
  by (simp add: interv_sum_list_conv_sum_set_nat)

lemma dft_packed_0: "dft_packed N x 0 = (\<Sum>m = 0..<N. x m)"
  by (simp add: dft_packed_def sum_list_upt_sum)

lemma dft_packed_1: "dft_packed N x (Suc 0) = (\<Sum>m = 0..<N. x m * cos (pi * real m))"
  by (simp add: dft_packed_def sum_list_upt_sum)

lemma dft_packed_re:
  "0 < k \<Longrightarrow> dft_packed N x (2 * k) = (\<Sum>m = 0..<N. x m * cos (2 * pi * real k * real m / real N))"
  by (simp add: dft_packed_def sum_list_upt_sum)

lemma dft_packed_im:
  "0 < k \<Longrightarrow> dft_packed N x (Suc (2 * k)) = - (\<Sum>m = 0..<N. x m * sin (2 * pi * real k * real m / real N))"
  by (simp add: dft_packed_def sum_list_upt_sum)

text \<open>The spectrum of a constant signal: bin 0 is the sum, bin \<open>N/2\<close> is zero.\<close>

lemma sum_cos_pi_even: "(\<Sum>m = 0..<2 * H. c * cos (pi * real m)) = 0"
  by (induction H) simp_all

lemma dft_packed_const_0: "dft_packed N (\<lambda>n. c) 0 = real N * c"
  by (simp add: dft_packed_0)

lemma dft_packed_const_1: "dft_packed 32 (\<lambda>n. c) (Suc 0) = 0"
  using sum_cos_pi_even [of c 16] by (simp add: dft_packed_1)

text \<open>Lagrange's identity for a sum of cosines, and the sum it gives over the bins.\<close>

lemma lagrange_cos_sum:
  "(\<Sum>k = 1..<Suc M. 2 * sin a * cos (2 * real k * a)) = sin ((2 * real M + 1) * a) - sin a"
proof (induction M)
  case 0
  show ?case by simp
next
  case (Suc M)
  have e1: "((2 * real (Suc M) + 1) * a - (2 * real M + 1) * a) / 2 = a"
    by (simp add: algebra_simps)
  have e2: "((2 * real (Suc M) + 1) * a + (2 * real M + 1) * a) / 2 = 2 * real (Suc M) * a"
    by (simp add: algebra_simps)
  have "sin ((2 * real (Suc M) + 1) * a) - sin ((2 * real M + 1) * a)
          = 2 * sin a * cos (2 * real (Suc M) * a)"
    using sin_diff_sin [of "(2 * real (Suc M) + 1) * a" "(2 * real M + 1) * a"]
    by (simp only: e1 e2)
  with Suc show ?case
    by simp
qed

lemma sin_pi_diff_nat: "sin (pi * (real m - real n)) = 0"
  by (simp add: right_diff_distrib sin_diff)

lemma sin_frac_neq0:
  fixes d D :: real
  assumes "0 < d" and "d < D"
  shows "sin (pi * d / D) \<noteq> 0"
proof -
  have D: "0 < D" using assms by simp
  have "0 < pi * d / D" using assms D by simp
  moreover have "pi * d / D < pi"
  proof -
    have "d / D < 1" using assms D by simp
    then have "pi * (d / D) < pi * 1"
      by (intro mult_strict_left_mono) simp_all
    then show ?thesis by simp
  qed
  ultimately have "0 < sin (pi * d / D)" by (rule sin_gt_zero)
  then show ?thesis by simp
qed

lemma dirichlet_half:
  assumes "m < 2 * H" and "n < 2 * H" and "0 < H"
  shows "1 + cos (pi * (real m - real n))
           + 2 * (\<Sum>k = 1..<H. cos (2 * real k * (pi * (real m - real n) / real (2 * H))))
         = (if m = n then real (2 * H) else 0)"
proof (cases "m = n")
  case True
  then show ?thesis using assms(3) by simp
next
  case False
  define a where "a = pi * (real m - real n) / real (2 * H)"
  obtain M where M: "H = Suc M"
    using assms(3) by (cases H) auto
  have sa: "sin a \<noteq> 0"
  proof (cases "n < m")
    case True
    then have "sin (pi * (real m - real n) / real (2 * H)) \<noteq> 0"
      using assms(1) by (intro sin_frac_neq0) simp_all
    then show ?thesis by (simp add: a_def)
  next
    case F: False
    with False have "m < n" by simp
    then have "sin (pi * (real n - real m) / real (2 * H)) \<noteq> 0"
      using assms(2) by (intro sin_frac_neq0) simp_all
    moreover have "a = - (pi * (real n - real m) / real (2 * H))"
      by (simp add: a_def algebra_simps diff_divide_distrib)
    ultimately show ?thesis by simp
  qed
  have ang: "(2 * real M + 1) * a = pi * (real m - real n) - a"
    using assms(3) by (simp add: a_def M field_simps)
  have "2 * sin a * (\<Sum>k = 1..<H. cos (2 * real k * a))
          = (\<Sum>k = 1..<Suc M. 2 * sin a * cos (2 * real k * a))"
    by (simp only: M sum_distrib_left)
  also have "\<dots> = sin (pi * (real m - real n) - a) - sin a"
    by (simp only: lagrange_cos_sum ang)
  also have "\<dots> = - cos (pi * (real m - real n)) * sin a - sin a"
    by (simp add: sin_diff sin_pi_diff_nat)
  finally have "sin a * (1 + cos (pi * (real m - real n))
      + 2 * (\<Sum>k = 1..<H. cos (2 * real k * a))) = 0"
    by (simp add: algebra_simps)
  with sa have "1 + cos (pi * (real m - real n)) + 2 * (\<Sum>k = 1..<H. cos (2 * real k * a)) = 0"
    by simp
  with False show ?thesis by (simp add: a_def)
qed

text \<open>The inverse transform of the reference kernel undoes its forward transform.\<close>

lemma idft_dft:
  assumes "even N" and "0 < N" and "n < N"
  shows "idft_packed N (dft_packed N x) n = x n"
proof -
  obtain H where H: "N = 2 * H"
    using assms(1) by (auto elim: evenE)
  have Hpos: "0 < H" using assms(2) H by simp
  define a where "a m = pi * (real m - real n) / real (2 * H)" for m
  have bin: "dft_packed N x (2 * k) * cos (2 * pi * real k * real n / real N)
               - dft_packed N x (Suc (2 * k)) * sin (2 * pi * real k * real n / real N)
             = (\<Sum>m = 0..<N. x m * cos (2 * real k * a m))" if "k \<in> {1..<H}" for k
  proof -
    have k: "0 < k" using that by simp
    have arg: "2 * real k * a m
                 = 2 * pi * real k * real m / real N - 2 * pi * real k * real n / real N" for m
      using Hpos by (simp add: a_def H field_simps)
    define C where "C = cos (2 * pi * real k * real n / real N)"
    define S where "S = sin (2 * pi * real k * real n / real N)"
    have "dft_packed N x (2 * k) * C - dft_packed N x (Suc (2 * k)) * S
            = (\<Sum>m = 0..<N. x m * cos (2 * pi * real k * real m / real N) * C)
              + (\<Sum>m = 0..<N. x m * sin (2 * pi * real k * real m / real N) * S)"
      by (simp add: dft_packed_re [OF k] dft_packed_im [OF k] sum_distrib_right)
    also have "\<dots> = (\<Sum>m = 0..<N. x m * cos (2 * pi * real k * real m / real N) * C
                                 + x m * sin (2 * pi * real k * real m / real N) * S)"
      by (simp add: sum.distrib)
    also have "\<dots> = (\<Sum>m = 0..<N. x m * cos (2 * real k * a m))"
      unfolding arg cos_diff C_def S_def
      by (rule sum.cong [OF refl]) (simp add: algebra_simps)
    finally show ?thesis
      by (simp only: C_def S_def)
  qed
  have nyq: "dft_packed N x (Suc 0) * cos (pi * real n)
               = (\<Sum>m = 0..<N. x m * cos (pi * (real m - real n)))"
  proof -
    have "cos (pi * (real m - real n)) = cos (pi * real m) * cos (pi * real n)" for m
      by (simp add: right_diff_distrib cos_diff)
    then show ?thesis
      by (simp add: dft_packed_1 sum_distrib_right mult.assoc)
  qed
  have "dft_packed N x 0 + dft_packed N x (Suc 0) * cos (pi * real n)
          + 2 * (\<Sum>k = 1..<H. dft_packed N x (2 * k) * cos (2 * pi * real k * real n / real N)
                 - dft_packed N x (Suc (2 * k)) * sin (2 * pi * real k * real n / real N))
        = (\<Sum>m = 0..<N. x m) + (\<Sum>m = 0..<N. x m * cos (pi * (real m - real n)))
          + 2 * (\<Sum>k = 1..<H. \<Sum>m = 0..<N. x m * cos (2 * real k * a m))"
    by (simp only: dft_packed_0 nyq bin cong: sum.cong)
  also have "(\<Sum>k = 1..<H. \<Sum>m = 0..<N. x m * cos (2 * real k * a m))
               = (\<Sum>m = 0..<N. x m * (\<Sum>k = 1..<H. cos (2 * real k * a m)))"
    by (subst sum.swap) (simp add: sum_distrib_left)
  also have "(\<Sum>m = 0..<N. x m) + (\<Sum>m = 0..<N. x m * cos (pi * (real m - real n)))
          + 2 * (\<Sum>m = 0..<N. x m * (\<Sum>k = 1..<H. cos (2 * real k * a m)))
        = (\<Sum>m = 0..<N. x m * (1 + cos (pi * (real m - real n))
                                  + 2 * (\<Sum>k = 1..<H. cos (2 * real k * a m))))"
    by (simp add: sum.distrib sum_distrib_left algebra_simps)
  also have "\<dots> = (\<Sum>m = 0..<N. x m * (if m = n then real (2 * H) else 0))"
  proof (rule sum.cong [OF refl])
    fix m assume "m \<in> {0..<N}"
    then have "m < 2 * H" using H by simp
    moreover have "n < 2 * H" using assms(3) H by simp
    ultimately show "x m * (1 + cos (pi * (real m - real n))
                                  + 2 * (\<Sum>k = 1..<H. cos (2 * real k * a m)))
                       = x m * (if m = n then real (2 * H) else 0)"
      using dirichlet_half [of m H n] Hpos by (simp only: a_def)
  qed
  also have "\<dots> = (\<Sum>m = 0..<N. if m = n then x m * real (2 * H) else 0)"
    by (rule sum.cong [OF refl]) simp
  also have "\<dots> = x n * real N"
    using assms(3) by (simp add: H)
  finally show ?thesis
    using assms(2) by (simp add: idft_packed_def sum_list_upt_sum H)
qed

text \<open>The inverse transform reads the \<open>N\<close> cells of the packed spectrum only.\<close>

lemma idft_packed_cong:
  assumes "even N" and "0 < N" and eq: "\<And>j. j < N \<Longrightarrow> X j = Y j"
  shows "idft_packed N X n = idft_packed N Y n"
proof -
  obtain H where H: "N = 2 * H"
    using assms(1) by (auto elim: evenE)
  have Hpos: "0 < H" using assms(2) H by simp
  have a0: "X 0 = Y 0" using eq [of 0] assms(2) by simp
  have a1: "X 1 = Y 1" using eq [of 1] Hpos H by simp
  have m: "map (\<lambda>k. X (2 * k) * cos (2 * pi * real k * real n / real N)
                      - X (2 * k + 1) * sin (2 * pi * real k * real n / real N)) [1..<N div 2]
         = map (\<lambda>k. Y (2 * k) * cos (2 * pi * real k * real n / real N)
                      - Y (2 * k + 1) * sin (2 * pi * real k * real n / real N)) [1..<N div 2]"
  proof (rule map_cong [OF refl])
    fix k assume "k \<in> set [1..<N div 2]"
    then have k: "k < H" using H by simp
    then have "X (2 * k) = Y (2 * k)" "X (2 * k + 1) = Y (2 * k + 1)"
      using H by (simp_all add: eq)
    then show "X (2 * k) * cos (2 * pi * real k * real n / real N)
                 - X (2 * k + 1) * sin (2 * pi * real k * real n / real N)
               = Y (2 * k) * cos (2 * pi * real k * real n / real N)
                 - Y (2 * k + 1) * sin (2 * pi * real k * real n / real N)"
      by (simp only:)
  qed
  show ?thesis
    unfolding idft_packed_def by (simp only: a0 a1 m)
qed

text \<open>The reference kernel makes the round trip exactly, for every even length.\<close>

lemma ref_kernel_round_trip:
  assumes "even (unat (fftLenRFFT S))" and "0 < unat (fftLenRFFT S)"
  shows "rfft_round_trip ref_kernel S (unat (fftLenRFFT S)) 0"
  unfolding rfft_round_trip_def
proof (intro allI impI)
  fix p q p' q' :: addr and mem mem' :: heap and n :: nat
  let ?N = "unat (fftLenRFFT S)"
  assume H: "disjoint p ?N q ?N \<and> disjoint p' ?N q' ?N
      \<and> (\<forall>j<?N. mem' (p' + j)
            = arm_rfft_fast_f32 ref_kernel S p q (REAL_FFT_SELECT_VAL ref_kernel) mem (q + j))"
    and n: "n < ?N"
  have fwd: "mem' (p' + j) = dft_packed ?N (\<lambda>m. mem (p + m)) j" if "j < ?N" for j
    using H that by (simp add: ref_kernel_def ref_rfft_def)
  have "arm_rfft_fast_f32 ref_kernel S p' q' (REAL_IFFT_SELECT_VAL ref_kernel) mem' (q' + n)
          = idft_packed ?N (\<lambda>j. mem' (p' + j)) n"
    using n by (simp add: ref_kernel_def ref_rfft_def)
  also have "\<dots> = idft_packed ?N (dft_packed ?N (\<lambda>m. mem (p + m))) n"
    by (rule idft_packed_cong [OF assms]) (rule fwd)
  also have "\<dots> = mem (p + n)"
    by (rule idft_dft [OF assms n])
  finally show "\<bar>arm_rfft_fast_f32 ref_kernel S p' q' (REAL_IFFT_SELECT_VAL ref_kernel) mem' (q' + n)
                   - mem (p + n)\<bar> \<le> 0"
    by simp
qed

subsection \<open>The wrappers\<close>

text \<open>
  Claim C1, as the spec states it: the magnitude operation takes a packed spectrum and
  writes \<open>output[k] = sqrt(real[k]^2 + imag[k]^2)\<close> of it, with no transform of its own.
  The function takes real samples and transforms them first. On the block \<open>f1\<close> (length
  32), with every cell of the input buffer at 400 holding 1, the claim gives
  \<open>output[0] = sqrt (1^2 + 1^2)\<close>; the function writes 32, the magnitude of the DC bin
  of the 32 samples.
\<close>

theorem magnitude_apply_transforms_input:
  "CMSIS_DSP_magnitude_FFT_f32_apply ref_kernel f1 400 300 (\<lambda>a. 1) (300 + 0) = 32
   \<and> CMSIS_DSP_magnitude_FFT_f32_apply ref_kernel f1 400 300 (\<lambda>a. 1) (300 + 0)
       \<noteq> sqrt (((\<lambda>a. 1) (400 + 2 * 0))\<^sup>2 + ((\<lambda>a. 1) (400 + 2 * 0 + 1))\<^sup>2)"
proof -
  have "CMSIS_DSP_magnitude_FFT_f32_apply ref_kernel f1 400 300 (\<lambda>a. 1) (300 + 0)
          = sqrt ((32::real)\<^sup>2 + 0\<^sup>2)"
    by (simp add: f1_eq CMSIS_DSP_magnitude_FFT_f32_apply_def arm_cmplx_mag_f32_def
      ref_kernel_def ref_rfft_def memcpy_f32_def dft_packed_const_0 dft_packed_const_1)
  then have v: "CMSIS_DSP_magnitude_FFT_f32_apply ref_kernel f1 400 300 (\<lambda>a. 1) (300 + 0) = 32"
    by simp
  have "sqrt ((1::real)\<^sup>2 + 1\<^sup>2) < sqrt (32\<^sup>2)"
    by (rule real_sqrt_less_mono) simp
  then have "sqrt ((1::real)\<^sup>2 + 1\<^sup>2) \<noteq> 32"
    by simp
  with v show ?thesis
    by simp
qed

text \<open>
  Claim C1, amended: the magnitude operation is not a post-processing step on a supplied
  spectrum. It takes the configured block and a buffer of \<open>N\<close> real samples, \<open>N\<close> the
  block's length, and first does on them what the forward-transform operation does when
  its output buffer is scratch buffer 2. Then, for every \<open>k\<close> in \<open>[0, N/2)\<close>, it
  writes \<open>output[k] = sqrt(real[k]^2 + imag[k]^2)\<close> of the cells \<open>2k\<close> and \<open>2k + 1\<close>
  that this transform left in scratch buffer 2, the output buffer sharing no cell with
  scratch buffer 2. Every cell outside the \<open>N/2\<close> cells of the output buffer, the
  scratch buffers included, is left as that forward-transform operation leaves it. This
  holds for every kernel.
\<close>

theorem magnitude_apply_of_transform:
  "CMSIS_DSP_magnitude_FFT_f32_apply K s rDataIn magFFTOut mem
     = arm_cmplx_mag_f32 (tmpBuffer_2 s) magFFTOut (unat (rfft_length s) div 2)
         (CMSIS_DSP_real_FFT_f32_apply K s rDataIn (tmpBuffer_2 s) mem)
   \<and> (\<forall>k. k < unat (rfft_length s) div 2
          \<and> disjoint magFFTOut (unat (rfft_length s) div 2) (tmpBuffer_2 s) (unat (rfft_length s))
        \<longrightarrow> CMSIS_DSP_magnitude_FFT_f32_apply K s rDataIn magFFTOut mem (magFFTOut + k)
          = sqrt ((CMSIS_DSP_real_FFT_f32_apply K s rDataIn (tmpBuffer_2 s) mem
                     (tmpBuffer_2 s + 2 * k))\<^sup>2
                + (CMSIS_DSP_real_FFT_f32_apply K s rDataIn (tmpBuffer_2 s) mem
                     (tmpBuffer_2 s + 2 * k + 1))\<^sup>2))
   \<and> (\<forall>a. \<not> (magFFTOut \<le> a \<and> a < magFFTOut + unat (rfft_length s) div 2)
        \<longrightarrow> CMSIS_DSP_magnitude_FFT_f32_apply K s rDataIn magFFTOut mem a
          = CMSIS_DSP_real_FFT_f32_apply K s rDataIn (tmpBuffer_2 s) mem a)"
  by (simp add: CMSIS_DSP_magnitude_FFT_f32_apply_def CMSIS_DSP_real_FFT_f32_apply_def
      arm_cmplx_mag_f32_def)

text \<open>
  The block \<open>f1\<close> on the reference kernel, every input cell holding 2, output at 300: the
  forward transform leaves 64 in cell 200 and 0 in cell 201 of scratch buffer 2, the
  magnitude of bin 0 is 64, and cell 200 still holds 64 afterwards.
\<close>

theorem magnitude_apply_of_transform_witness:
  "(0::nat) < unat (rfft_length f1) div 2
   \<and> disjoint 300 (unat (rfft_length f1) div 2) (tmpBuffer_2 f1) (unat (rfft_length f1))
   \<and> \<not> (300 \<le> (200::nat) \<and> 200 < 300 + unat (rfft_length f1) div 2)
   \<and> CMSIS_DSP_real_FFT_f32_apply ref_kernel f1 400 200 (\<lambda>a. 2) (200 + 2 * 0) = 64
   \<and> CMSIS_DSP_real_FFT_f32_apply ref_kernel f1 400 200 (\<lambda>a. 2) (200 + 2 * 0 + 1) = 0
   \<and> CMSIS_DSP_magnitude_FFT_f32_apply ref_kernel f1 400 300 (\<lambda>a. 2) (300 + 0) = 64
   \<and> CMSIS_DSP_magnitude_FFT_f32_apply ref_kernel f1 400 300 (\<lambda>a. 2) 200 = 64"
proof -
  have h: "(0::nat) < unat (rfft_length f1) div 2
      \<and> disjoint 300 (unat (rfft_length f1) div 2) (tmpBuffer_2 f1) (unat (rfft_length f1))"
    by (simp add: f1_eq disjoint_def)
  have o: "\<not> (300 \<le> (200::nat) \<and> 200 < 300 + unat (rfft_length f1) div 2)"
    by simp
  have t: "tmpBuffer_2 f1 = 200"
    by (simp add: f1_eq)
  have c0: "CMSIS_DSP_real_FFT_f32_apply ref_kernel f1 400 200 (\<lambda>a. 2) (200 + 2 * 0) = 64"
    by (simp add: f1_eq CMSIS_DSP_real_FFT_f32_apply_def ref_kernel_def ref_rfft_def
        memcpy_f32_def dft_packed_const_0)
  have c1: "CMSIS_DSP_real_FFT_f32_apply ref_kernel f1 400 200 (\<lambda>a. 2) (200 + 2 * 0 + 1) = 0"
    by (simp add: f1_eq CMSIS_DSP_real_FFT_f32_apply_def ref_kernel_def ref_rfft_def
        memcpy_f32_def dft_packed_const_1)
  note T = magnitude_apply_of_transform [of ref_kernel f1 400 300 "\<lambda>a. 2"]
  have "CMSIS_DSP_magnitude_FFT_f32_apply ref_kernel f1 400 300 (\<lambda>a. 2) (300 + 0)
          = sqrt ((CMSIS_DSP_real_FFT_f32_apply ref_kernel f1 400 (tmpBuffer_2 f1) (\<lambda>a. 2)
                     (tmpBuffer_2 f1 + 2 * 0))\<^sup>2
                + (CMSIS_DSP_real_FFT_f32_apply ref_kernel f1 400 (tmpBuffer_2 f1) (\<lambda>a. 2)
                     (tmpBuffer_2 f1 + 2 * 0 + 1))\<^sup>2)"
    by (rule T [THEN conjunct2, THEN conjunct1, THEN spec [of _ 0], THEN mp, OF h])
  then have m: "CMSIS_DSP_magnitude_FFT_f32_apply ref_kernel f1 400 300 (\<lambda>a. 2) (300 + 0) = 64"
    by (simp only: t c0 c1) simp
  have "CMSIS_DSP_magnitude_FFT_f32_apply ref_kernel f1 400 300 (\<lambda>a. 2) 200
          = CMSIS_DSP_real_FFT_f32_apply ref_kernel f1 400 (tmpBuffer_2 f1) (\<lambda>a. 2) 200"
    by (rule T [THEN conjunct2, THEN conjunct2, THEN spec [of _ 200], THEN mp, OF o])
  then have s: "CMSIS_DSP_magnitude_FFT_f32_apply ref_kernel f1 400 300 (\<lambda>a. 2) 200 = 64"
    using c0 by (simp add: t)
  from h o c0 c1 m s show ?thesis
    by (simp only: simp_thms)
qed

text \<open>
  Claim C7: for every configured block, every real input buffer and every bin \<open>k\<close> in
  \<open>[0, N/2)\<close>, the \<open>k\<close>-th value written by the magnitude operation, squared, equals
  the \<open>k\<close>-th value written by the magnitude-squared operation on the same input. On
  reals the two are equal; the output buffer shares no cell with scratch buffer 2. This
  holds for every kernel.
\<close>

theorem magnitude_squared_consistent:
  assumes "k < unat (rfft_length s) div 2"
    and "disjoint out (unat (rfft_length s) div 2) (tmpBuffer_2 s) (unat (rfft_length s))"
  shows "(CMSIS_DSP_magnitude_FFT_f32_apply K s rDataIn out mem (out + k))\<^sup>2
           = CMSIS_DSP_magnitudeSquare_FFT_f32_apply K s rDataIn out mem (out + k)"
  using assms
  by (simp add: CMSIS_DSP_magnitude_FFT_f32_apply_def CMSIS_DSP_magnitudeSquare_FFT_f32_apply_def
      arm_cmplx_mag_f32_def arm_cmplx_mag_squared_f32_def)

text \<open>Bin 0 of the constant signal on the block \<open>f1\<close>: magnitude 32, magnitude squared 1024.\<close>

theorem magnitude_squared_consistent_witness:
  "(0::nat) < unat (rfft_length f1) div 2
   \<and> disjoint 300 (unat (rfft_length f1) div 2) (tmpBuffer_2 f1) (unat (rfft_length f1))
   \<and> (CMSIS_DSP_magnitude_FFT_f32_apply ref_kernel f1 400 300 (\<lambda>a. 1) (300 + 0))\<^sup>2
       = CMSIS_DSP_magnitudeSquare_FFT_f32_apply ref_kernel f1 400 300 (\<lambda>a. 1) (300 + 0)
   \<and> CMSIS_DSP_magnitudeSquare_FFT_f32_apply ref_kernel f1 400 300 (\<lambda>a. 1) (300 + 0) = 1024"
proof -
  have h: "(0::nat) < unat (rfft_length f1) div 2"
    by (simp add: f1_eq)
  have d: "disjoint 300 (unat (rfft_length f1) div 2) (tmpBuffer_2 f1) (unat (rfft_length f1))"
    by (simp add: f1_eq disjoint_def)
  have "CMSIS_DSP_magnitudeSquare_FFT_f32_apply ref_kernel f1 400 300 (\<lambda>a. 1) (300 + 0) = 1024"
    by (simp add: f1_eq CMSIS_DSP_magnitudeSquare_FFT_f32_apply_def arm_cmplx_mag_squared_f32_def
      ref_kernel_def ref_rfft_def memcpy_f32_def dft_packed_const_0 dft_packed_const_1)
  with h d magnitude_squared_consistent [OF h d, of ref_kernel 400 "\<lambda>a. 1"]
  show ?thesis
    by simp
qed

text \<open>
  Claim C2: for every real sample buffer of the configured length \<open>N\<close>, the forward
  transform followed by the inverse transform on the same block returns the samples up
  to rounding error. The rounding is done by the kernel, so the error is the one the
  kernel makes: when the kernel of the block makes the round trip within \<open>eps\<close>, sample
  \<open>n\<close> of the output of the inverse-transform operation, run on the output of the
  forward-transform operation, is within \<open>eps\<close> of sample \<open>n\<close> of the input, for every
  \<open>n\<close> in \<open>[0, N)\<close>. The wrappers add the two copies into scratch buffer 1, of \<open>N\<close>
  cells each, and the two direction flags; the intermediate buffer and the output buffer
  each share no cell with scratch buffer 1.
\<close>

theorem real_FFT_round_trip:
  assumes "rfft_round_trip K (rfft_arm_struct s) (unat (rfft_length s)) eps"
    and "disjoint (tmpBuffer_1 s) (unat (rfft_length s)) fftOut (unat (rfft_length s))"
    and "disjoint (tmpBuffer_1 s) (unat (rfft_length s)) ifftOut (unat (rfft_length s))"
    and "n < unat (rfft_length s)"
  shows "\<bar>CMSIS_DSP_real_IFFT_f32_apply K s fftOut ifftOut
             (CMSIS_DSP_real_FFT_f32_apply K s rDataIn fftOut mem) (ifftOut + n)
           - mem (rDataIn + n)\<bar> \<le> eps"
proof -
  let ?N = "unat (rfft_length s)"
  let ?m = "memcpy_f32 (tmpBuffer_1 s) rDataIn ?N mem"
  let ?F = "CMSIS_DSP_real_FFT_f32_apply K s rDataIn fftOut mem"
  let ?m' = "memcpy_f32 (tmpBuffer_1 s) fftOut ?N ?F"
  have F: "?F = arm_rfft_fast_f32 K (rfft_arm_struct s) (tmpBuffer_1 s) fftOut
                  (REAL_FFT_SELECT_VAL K) ?m"
    by (simp only: CMSIS_DSP_real_FFT_f32_apply_def)
  have cells: "\<forall>j<?N. ?m' (tmpBuffer_1 s + j)
      = arm_rfft_fast_f32 K (rfft_arm_struct s) (tmpBuffer_1 s) fftOut (REAL_FFT_SELECT_VAL K) ?m
          (fftOut + j)"
    by (simp add: memcpy_f32_def [of "tmpBuffer_1 s" fftOut] F)
  have "\<bar>arm_rfft_fast_f32 K (rfft_arm_struct s) (tmpBuffer_1 s) ifftOut (REAL_IFFT_SELECT_VAL K) ?m'
           (ifftOut + n) - ?m (tmpBuffer_1 s + n)\<bar> \<le> eps"
    by (rule assms(1) [unfolded rfft_round_trip_def, THEN spec [of _ "tmpBuffer_1 s"],
          THEN spec [of _ fftOut], THEN spec [of _ "tmpBuffer_1 s"], THEN spec [of _ ifftOut],
          THEN spec [of _ ?m], THEN spec [of _ ?m'], THEN mp, THEN spec [of _ n], THEN mp])
       (intro conjI assms(2,3,4) cells)+
  moreover have "?m (tmpBuffer_1 s + n) = mem (rDataIn + n)"
    using assms(4) by (simp add: memcpy_f32_def)
  ultimately show ?thesis
    by (simp only: CMSIS_DSP_real_IFFT_f32_apply_def)
qed

text \<open>
  The block \<open>f1\<close> on the reference kernel, which makes the round trip exactly: with the
  input at 400 on a store whose cells hold their own addresses, the spectrum at 500 and
  the output at 600, sample 5 of the output is 405.
\<close>

theorem real_FFT_round_trip_witness:
  "rfft_round_trip ref_kernel (rfft_arm_struct f1) (unat (rfft_length f1)) 0
   \<and> disjoint (tmpBuffer_1 f1) (unat (rfft_length f1)) 500 (unat (rfft_length f1))
   \<and> disjoint (tmpBuffer_1 f1) (unat (rfft_length f1)) 600 (unat (rfft_length f1))
   \<and> (5::nat) < unat (rfft_length f1)
   \<and> CMSIS_DSP_real_IFFT_f32_apply ref_kernel f1 500 600
        (CMSIS_DSP_real_FFT_f32_apply ref_kernel f1 400 500 (\<lambda>a. real a)) (600 + 5) = 405"
proof -
  have "rfft_round_trip ref_kernel \<lparr>fftLenRFFT = 32\<rparr> (unat (fftLenRFFT \<lparr>fftLenRFFT = 32\<rparr>)) 0"
    by (rule ref_kernel_round_trip) simp_all
  then have h1: "rfft_round_trip ref_kernel (rfft_arm_struct f1) (unat (rfft_length f1)) 0"
    by (simp add: f1_eq)
  have h2: "disjoint (tmpBuffer_1 f1) (unat (rfft_length f1)) 500 (unat (rfft_length f1))"
    by (simp add: f1_eq disjoint_def)
  have h3: "disjoint (tmpBuffer_1 f1) (unat (rfft_length f1)) 600 (unat (rfft_length f1))"
    by (simp add: f1_eq disjoint_def)
  have h4: "(5::nat) < unat (rfft_length f1)"
    by (simp add: f1_eq)
  from real_FFT_round_trip [OF h1 h2 h3 h4, of 400 "\<lambda>a. real a"]
  have "CMSIS_DSP_real_IFFT_f32_apply ref_kernel f1 500 600
        (CMSIS_DSP_real_FFT_f32_apply ref_kernel f1 400 500 (\<lambda>a. real a)) (600 + 5) = 405"
    by simp
  with h1 h2 h3 h4 show ?thesis
    by (simp only: simp_thms)
qed

section \<open>Properties of the FIR filter\<close>

text \<open>
  Claim C4, as the spec states it: FIR initialization fails with an ArgumentError returned
  to the caller whenever the tap count is zero. The function is \<^verbatim>\<open>void\<close> and tests
  nothing: called with tap count zero it ends as every other call does, with the five
  values stored in the block. The result has no status.
\<close>

theorem FIR_blockInit_zero_taps:
  "numTap (fst (CMSIS_DSP_FIR_f32_blockInit fir0 100 200 300 0 4 (\<lambda>a. 1))) = 0
   \<and> blockSize (fst (CMSIS_DSP_FIR_f32_blockInit fir0 100 200 300 0 4 (\<lambda>a. 1))) = 4
   \<and> pCoeff (fst (CMSIS_DSP_FIR_f32_blockInit fir0 100 200 300 0 4 (\<lambda>a. 1))) = 100
   \<and> pState (fst (CMSIS_DSP_FIR_f32_blockInit fir0 100 200 300 0 4 (\<lambda>a. 1))) = 200
   \<and> tmpBuffer (fst (CMSIS_DSP_FIR_f32_blockInit fir0 100 200 300 0 4 (\<lambda>a. 1))) = 300"
  by (simp add: CMSIS_DSP_FIR_f32_blockInit_def Let_def)

text \<open>
  Claim C4, amended: FIR filter initialization returns no status and checks none of its
  arguments. For every tap count, block size and buffer pointers it stores the five
  values in the block, and the filter instance of the block and the store are what the
  kernel initializer makes of the block's instance, the tap count, the coefficient
  pointer, the state pointer and the block size (the scratch pointer is stored in the
  block only). When the tap count and the block size are not zero and no pointer is
  null, the state buffer of length \<open>tapCount + blockSize - 1\<close> is zero-filled and every
  other cell is left as it was.
\<close>

theorem FIR_blockInit_no_validation:
  "numTap (fst (CMSIS_DSP_FIR_f32_blockInit s co st tmp T B mem)) = T
   \<and> blockSize (fst (CMSIS_DSP_FIR_f32_blockInit s co st tmp T B mem)) = B
   \<and> pCoeff (fst (CMSIS_DSP_FIR_f32_blockInit s co st tmp T B mem)) = co
   \<and> pState (fst (CMSIS_DSP_FIR_f32_blockInit s co st tmp T B mem)) = st
   \<and> tmpBuffer (fst (CMSIS_DSP_FIR_f32_blockInit s co st tmp T B mem)) = tmp
   \<and> fir_arm_struct (fst (CMSIS_DSP_FIR_f32_blockInit s co st tmp T B mem))
       = fst (arm_fir_init_f32 (fir_arm_struct s) T co st B mem)
   \<and> snd (CMSIS_DSP_FIR_f32_blockInit s co st tmp T B mem)
       = snd (arm_fir_init_f32 (fir_arm_struct s) T co st B mem)
   \<and> (T \<noteq> 0 \<and> B \<noteq> 0 \<and> co \<noteq> NULL \<and> st \<noteq> NULL \<and> tmp \<noteq> NULL \<longrightarrow>
        (\<forall>a. snd (CMSIS_DSP_FIR_f32_blockInit s co st tmp T B mem) a
               = (if st \<le> a \<and> a < st + (unat T + unat B - 1) then 0 else mem a)))"
  by (simp add: CMSIS_DSP_FIR_f32_blockInit_def Let_def arm_fir_init_f32_def)

text \<open>
  Three taps and block size four, coefficients at 100, state at 200, scratch at 300: the
  instance is bound to the three taps, the state buffer and the coefficient buffer, the
  six cells 200 to 205 are zero, and cell 206 is as it was.
\<close>

theorem FIR_blockInit_no_validation_witness:
  "(3 :: 16 word) \<noteq> 0 \<and> (4 :: 32 word) \<noteq> 0 \<and> 100 \<noteq> NULL \<and> 200 \<noteq> NULL \<and> 300 \<noteq> NULL
   \<and> numTap (fst (CMSIS_DSP_FIR_f32_blockInit fir0 100 200 300 3 4 (\<lambda>a. 1))) = 3
   \<and> tmpBuffer (fst (CMSIS_DSP_FIR_f32_blockInit fir0 100 200 300 3 4 (\<lambda>a. 1))) = 300
   \<and> fir_arm_struct (fst (CMSIS_DSP_FIR_f32_blockInit fir0 100 200 300 3 4 (\<lambda>a. 1)))
       = \<lparr>fir_numTaps = 3, fir_pState = 200, fir_pCoeffs = 100\<rparr>
   \<and> snd (CMSIS_DSP_FIR_f32_blockInit fir0 100 200 300 3 4 (\<lambda>a. 1)) 205 = 0
   \<and> snd (CMSIS_DSP_FIR_f32_blockInit fir0 100 200 300 3 4 (\<lambda>a. 1)) 206 = 1"
proof -
  have h: "(3 :: 16 word) \<noteq> 0 \<and> (4 :: 32 word) \<noteq> 0 \<and> 100 \<noteq> NULL \<and> 200 \<noteq> NULL \<and> 300 \<noteq> NULL"
    by (simp add: NULL_def)
  note T = FIR_blockInit_no_validation [of fir0 100 200 300 3 4 "\<lambda>a. 1"]
  from T have n: "numTap (fst (CMSIS_DSP_FIR_f32_blockInit fir0 100 200 300 3 4 (\<lambda>a. 1))) = 3"
    by (rule conjunct1)
  from T have t: "tmpBuffer (fst (CMSIS_DSP_FIR_f32_blockInit fir0 100 200 300 3 4 (\<lambda>a. 1))) = 300"
    by blast
  from T have "fir_arm_struct (fst (CMSIS_DSP_FIR_f32_blockInit fir0 100 200 300 3 4 (\<lambda>a. 1)))
       = fst (arm_fir_init_f32 (fir_arm_struct fir0) 3 100 200 4 (\<lambda>a. 1))"
    by blast
  then have i: "fir_arm_struct (fst (CMSIS_DSP_FIR_f32_blockInit fir0 100 200 300 3 4 (\<lambda>a. 1)))
       = \<lparr>fir_numTaps = 3, fir_pState = 200, fir_pCoeffs = 100\<rparr>"
    by (simp add: arm_fir_init_f32_def fir0_def)
  from T h have z: "\<forall>a. snd (CMSIS_DSP_FIR_f32_blockInit fir0 100 200 300 3 4 (\<lambda>a. 1)) a
               = (if 200 \<le> a \<and> a < 200 + (unat (3 :: 16 word) + unat (4 :: 32 word) - 1) then 0 else 1)"
    by blast
  from z [THEN spec, of 205] z [THEN spec, of 206] h n t i show ?thesis
    by simp
qed

text \<open>
  Claim C8: for every initialized FIR block and every input buffer of the configured
  block size, apply first copies the input into the block's scratch buffer and filters
  from there, so the output values written when the output buffer is the input buffer
  itself equal the output values written to any other output buffer. The input buffer
  and the output buffer each share no cell with the scratch buffer, the state buffer and
  the coefficient buffer.
\<close>

theorem FIR_apply_in_place:
  assumes "s = fst (CMSIS_DSP_FIR_f32_blockInit s0 co st tmp T B mem0)"
    and "n < unat B"
    and "disjoint pInput (unat B) tmp (unat B)"
    and "disjoint pInput (unat B) st (unat T + unat B - 1)"
    and "disjoint pInput (unat B) co (unat T)"
    and "disjoint pOutput (unat B) tmp (unat B)"
    and "disjoint pOutput (unat B) st (unat T + unat B - 1)"
    and "disjoint pOutput (unat B) co (unat T)"
  shows "CMSIS_DSP_FIR_f32_apply s pInput pOutput mem
           = arm_fir_f32 (fir_arm_struct s) tmp pOutput B (memcpy_f32 tmp pInput (unat B) mem)
         \<and> CMSIS_DSP_FIR_f32_apply s pInput pInput mem (pInput + n)
           = CMSIS_DSP_FIR_f32_apply s pInput pOutput mem (pOutput + n)"
proof -
  have fields: "fir_arm_struct s = \<lparr>fir_numTaps = T, fir_pState = st, fir_pCoeffs = co\<rparr>"
    "blockSize s = B" "tmpBuffer s = tmp"
    using assms(1)
    by (simp_all add: CMSIS_DSP_FIR_f32_blockInit_def Let_def arm_fir_init_f32_def)
  have out: "\<And>dst. disjoint dst (unat B) st (unat T + unat B - 1) \<Longrightarrow>
      CMSIS_DSP_FIR_f32_apply s pInput dst mem (dst + n)
        = sum_list (map (\<lambda>i. memcpy_f32 (st + (unat T - 1)) tmp (unat B)
                                 (memcpy_f32 tmp pInput (unat B) mem) (co + i)
                               * memcpy_f32 (st + (unat T - 1)) tmp (unat B)
                                   (memcpy_f32 tmp pInput (unat B) mem) (st + n + i))
                      [0..<unat T])"
    using assms(2)
    by (auto simp add: CMSIS_DSP_FIR_f32_apply_def arm_fir_f32_def Let_def fields disjoint_def
        memcpy_f32_def [of st])
  have copy: "CMSIS_DSP_FIR_f32_apply s pInput pOutput mem
           = arm_fir_f32 (fir_arm_struct s) tmp pOutput B (memcpy_f32 tmp pInput (unat B) mem)"
    by (simp only: CMSIS_DSP_FIR_f32_apply_def fields(2,3))
  show ?thesis
    by (simp only: copy [symmetric] out [OF assms(4)] out [OF assms(7)])
qed

text \<open>
  The block \<open>fir1\<close> on a store whose cells hold their own addresses, input at 400: output
  sample 1 is \<open>100 * 400 + 101 * 401\<close>, in place and at 500 alike.
\<close>

theorem FIR_apply_in_place_witness:
  "(1::nat) < unat (2 :: 32 word)
   \<and> disjoint 400 (unat (2 :: 32 word)) 300 (unat (2 :: 32 word))
   \<and> disjoint 400 (unat (2 :: 32 word)) 200 (unat (2 :: 16 word) + unat (2 :: 32 word) - 1)
   \<and> disjoint 400 (unat (2 :: 32 word)) 100 (unat (2 :: 16 word))
   \<and> disjoint 500 (unat (2 :: 32 word)) 300 (unat (2 :: 32 word))
   \<and> disjoint 500 (unat (2 :: 32 word)) 200 (unat (2 :: 16 word) + unat (2 :: 32 word) - 1)
   \<and> disjoint 500 (unat (2 :: 32 word)) 100 (unat (2 :: 16 word))
   \<and> CMSIS_DSP_FIR_f32_apply fir1 400 400 (\<lambda>a. real a) (400 + 1)
       = CMSIS_DSP_FIR_f32_apply fir1 400 500 (\<lambda>a. real a) (500 + 1)
   \<and> CMSIS_DSP_FIR_f32_apply fir1 400 500 (\<lambda>a. real a) (500 + 1) = 80501"
proof -
  have h: "(1::nat) < unat (2 :: 32 word)"
    by simp
  have d: "disjoint 400 (unat (2 :: 32 word)) 300 (unat (2 :: 32 word))"
    "disjoint 400 (unat (2 :: 32 word)) 200 (unat (2 :: 16 word) + unat (2 :: 32 word) - 1)"
    "disjoint 400 (unat (2 :: 32 word)) 100 (unat (2 :: 16 word))"
    "disjoint 500 (unat (2 :: 32 word)) 300 (unat (2 :: 32 word))"
    "disjoint 500 (unat (2 :: 32 word)) 200 (unat (2 :: 16 word) + unat (2 :: 32 word) - 1)"
    "disjoint 500 (unat (2 :: 32 word)) 100 (unat (2 :: 16 word))"
    by (simp_all add: disjoint_def)
  have up: "[0..<2] = [0, Suc 0]"
    by (simp add: upt_rec)
  have v: "CMSIS_DSP_FIR_f32_apply fir1 400 500 (\<lambda>a. real a) (500 + 1) = 80501"
    by (simp add: fir1_def CMSIS_DSP_FIR_f32_blockInit_def arm_fir_init_f32_def
        CMSIS_DSP_FIR_f32_apply_def arm_fir_f32_def Let_def memcpy_f32_def up)
  from FIR_apply_in_place [OF fir1_def h d, of "\<lambda>a. real a", THEN conjunct2] h d v show ?thesis
    by simp
qed

end
